theory Spec2Isabelle
  imports Main "HOL-Library.Sublist"
begin

section \<open>TrueTag: the relational store\<close>

text \<open>
  The six tables of \<^verbatim>\<open>app_package/models\<close>. A row is a record whose fields are the
  columns of the model class (\<^verbatim>\<open>models.User.email\<close> is \<open>User_email\<close>); a nullable
  column is an \<open>option\<close>. A table is the list of its rows in insertion order, and the
  store is the record of the six tables. Identifiers and timestamps are integers
  (timestamps count seconds).
\<close>

record User =
  User_id :: int
  User_email :: string
  User_password :: string
  User_role :: string
  User_name :: "string option"
  User_created_at :: int

record Product =
  Product_id :: int
  Product_name :: string
  Product_description :: "string option"
  Product_manufacturer_id :: "int option"
  Product_category :: string
  Product_meta_data :: "string option"
  Product_image_url :: string
  Product_status :: string
  Product_created_at :: int

record Batch =
  Batch_id :: int
  Batch_product_id :: "int option"
  Batch_manufacturer_id :: int
  Batch_count :: int
  Batch_status :: string
  Batch_mint_type :: string
  Batch_blockchain_tx_hash :: "string option"
  Batch_created_at :: int

record Tag =
  Tag_id :: int
  Tag_tag_code :: string
  Tag_token_id :: string
  Tag_blockchain_tx_hash :: "string option"
  Tag_status :: string
  Tag_product_id :: "int option"
  Tag_batch_id :: int
  Tag_created_at :: int

record Scan =
  Scan_id :: int
  Scan_tag_id :: "int option"
  Scan_user_id :: "int option"
  Scan_location :: "string option"
  Scan_verification_result :: string
  Scan_timestamp :: int

record PasswordResetToken =
  PasswordResetToken_id :: int
  PasswordResetToken_user_id :: int
  PasswordResetToken_token :: string
  PasswordResetToken_expires_at :: int

record store =
  users :: "User list"
  products :: "Product list"
  batches :: "Batch list"
  tags :: "Tag list"
  scans :: "Scan list"
  password_reset_tokens :: "PasswordResetToken list"

text \<open>
  A handler either returns its response or fails. \<open>HTTPException c d\<close> is
  \<^verbatim>\<open>raise HTTPException(status_code=c, detail=d)\<close>; \<open>Unhandled m\<close> is any other
  exception that leaves the handler, which the framework answers with status 500.
\<close>

datatype failure = HTTPException nat string | Unhandled string

fun status_code :: "failure \<Rightarrow> nat" where
  "status_code (HTTPException c d) = c"
| "status_code (Unhandled m) = 500"

text \<open>
  The integer primary keys are assigned by the database on insertion: a new row gets a
  key above every key of its table.
\<close>

definition fresh_id :: "int list \<Rightarrow> int" where
  "fresh_id ids = fold max ids 0 + 1"

text \<open>\<^verbatim>\<open>str(n)\<close> for the integers that the handlers print into their messages.\<close>

definition digit_char :: "nat \<Rightarrow> char" where
  "digit_char d = char_of (48 + d)"

fun str_nat_fuel :: "nat \<Rightarrow> nat \<Rightarrow> string" where
  "str_nat_fuel 0 n = [digit_char (n mod 10)]"
| "str_nat_fuel (Suc k) n =
     (if n < 10 then [digit_char n] else str_nat_fuel k (n div 10) @ [digit_char (n mod 10)])"

definition str_int :: "int \<Rightarrow> string" where
  "str_int i = (if i < 0 then CHR ''-'' # str_nat_fuel (nat (- i)) (nat (- i))
                else str_nat_fuel (nat i) (nat i))"

section \<open>Registration (\<^verbatim>\<open>routers/auth.py\<close>, \<^verbatim>\<open>register_user\<close>)\<close>

text \<open>
  \<^verbatim>\<open>schemas.UserCreate\<close> inherits \<^verbatim>\<open>email\<close>, \<^verbatim>\<open>name\<close> and \<^verbatim>\<open>role\<close> (default
  \<^verbatim>\<open>"manufacturer"\<close>) from \<^verbatim>\<open>UserBase\<close> and adds \<^verbatim>\<open>password\<close>;
  \<^verbatim>\<open>schemas.UserResponse\<close> adds \<^verbatim>\<open>id\<close> and \<^verbatim>\<open>created_at\<close> to \<^verbatim>\<open>UserBase\<close>.
\<close>

record UserCreate =
  UserCreate_email :: string
  UserCreate_name :: "string option"
  UserCreate_role :: string
  UserCreate_password :: string

record UserResponse =
  UserResponse_email :: string
  UserResponse_name :: "string option"
  UserResponse_role :: string
  UserResponse_id :: int
  UserResponse_created_at :: int

definition UserResponse_from_orm :: "User \<Rightarrow> UserResponse" where
  "UserResponse_from_orm u =
     \<lparr>UserResponse_email = User_email u, UserResponse_name = User_name u,
      UserResponse_role = User_role u, UserResponse_id = User_id u,
      UserResponse_created_at = User_created_at u\<rparr>"

text \<open>
  \<open>hash_password\<close> is \<^verbatim>\<open>utils.hash_password\<close> (bcrypt, outside the model) and \<open>now\<close>
  the clock of the database, which fills \<^verbatim>\<open>created_at\<close>. The handler looks for a user
  with the e-mail of the request, raises 400 when there is one, and otherwise inserts a
  user whose role is the literal \<^verbatim>\<open>"manufacturer"\<close>; \<^verbatim>\<open>user_in.role\<close> is never read.
\<close>

definition register_user ::
  "(string \<Rightarrow> string) \<Rightarrow> int \<Rightarrow> UserCreate \<Rightarrow> store \<Rightarrow> (failure + UserResponse) \<times> store" where
  "register_user hash_password now user_in db =
     (case find (\<lambda>u. User_email u = UserCreate_email user_in) (users db) of
        Some existing \<Rightarrow> (Inl (HTTPException 400 ''Email already registered''), db)
      | None \<Rightarrow>
          let hashed = hash_password (UserCreate_password user_in);
              user = \<lparr>User_id = fresh_id (map User_id (users db)),
                      User_email = UserCreate_email user_in,
                      User_password = hashed,
                      User_role = ''manufacturer'',
                      User_name = UserCreate_name user_in,
                      User_created_at = now\<rparr>
          in (Inr (UserResponse_from_orm user), db\<lparr>users := users db @ [user]\<rparr>))"

section \<open>Password reset (\<^verbatim>\<open>routers/auth.py\<close>)\<close>

text \<open>
  \<^verbatim>\<open>request_password_reset\<close>. \<open>token\<close> is the value drawn by
  \<^verbatim>\<open>secrets.token_urlsafe(32)\<close> and \<open>now\<close> the clock; the expiry is one hour
  (\<^verbatim>\<open>timedelta(hours=1)\<close>, 3600 seconds) later. The response is the status of the route
  decorator (202) and the \<^verbatim>\<open>detail\<close> of the returned dictionary. Writing the token to
  the log is not part of the store.
\<close>

definition request_password_reset ::
  "string \<Rightarrow> int \<Rightarrow> string \<Rightarrow> store \<Rightarrow> (failure + nat \<times> string) \<times> store" where
  "request_password_reset token now email db =
     (case find (\<lambda>u. User_email u = email) (users db) of
        None \<Rightarrow> (Inr (202, ''If an account exists, a reset link will be sent''), db)
      | Some user \<Rightarrow>
          let expires_at = now + 3600;
              reset_record =
                \<lparr>PasswordResetToken_id =
                   fresh_id (map PasswordResetToken_id (password_reset_tokens db)),
                 PasswordResetToken_user_id = User_id user,
                 PasswordResetToken_token = token,
                 PasswordResetToken_expires_at = expires_at\<rparr>
          in (Inr (202, ''If an account exists, a reset link will be sent''),
              db\<lparr>password_reset_tokens := password_reset_tokens db @ [reset_record]\<rparr>))"

text \<open>
  \<^verbatim>\<open>reset_password\<close>. The token row is looked up by its token; a missing row and a row
  with \<^verbatim>\<open>expires_at < now\<close> raise the same 400. The user of the row is looked up by id
  (400 when absent). Then the password of that user is replaced by the hash of the new
  one, the token row is deleted by its primary key, and both are committed together.
\<close>

record PasswordReset =
  PasswordReset_token :: string
  PasswordReset_new_password :: string

definition reset_password ::
  "(string \<Rightarrow> string) \<Rightarrow> int \<Rightarrow> PasswordReset \<Rightarrow> store \<Rightarrow> (failure + nat \<times> string) \<times> store" where
  "reset_password hash_password now payload db =
     (case find (\<lambda>r. PasswordResetToken_token r = PasswordReset_token payload)
             (password_reset_tokens db) of
        None \<Rightarrow> (Inl (HTTPException 400 ''Invalid or expired token''), db)
      | Some token_rec \<Rightarrow>
          if PasswordResetToken_expires_at token_rec < now
          then (Inl (HTTPException 400 ''Invalid or expired token''), db)
          else
            (case find (\<lambda>u. User_id u = PasswordResetToken_user_id token_rec) (users db) of
               None \<Rightarrow> (Inl (HTTPException 400 ''Associated user not found''), db)
             | Some user \<Rightarrow>
                 (Inr (200, ''Password reset successfully''),
                  db\<lparr>users :=
                       map (\<lambda>u. if User_id u = User_id user
                                 then u\<lparr>User_password :=
                                          hash_password (PasswordReset_new_password payload)\<rparr>
                                 else u) (users db),
                     password_reset_tokens :=
                       filter (\<lambda>r. PasswordResetToken_id r \<noteq> PasswordResetToken_id token_rec)
                         (password_reset_tokens db)\<rparr>)))"

text \<open>
  Two constraints of the schema on the token table: the column \<^verbatim>\<open>token\<close> is unique, and
  \<^verbatim>\<open>user_id\<close> is a foreign key into \<^verbatim>\<open>users\<close>.
\<close>

definition tokens_unique :: "store \<Rightarrow> bool" where
  "tokens_unique db = distinct (map PasswordResetToken_token (password_reset_tokens db))"

definition token_users_exist :: "store \<Rightarrow> bool" where
  "token_users_exist db =
     list_all (\<lambda>r. PasswordResetToken_user_id r \<in> set (map User_id (users db)))
       (password_reset_tokens db)"

text \<open>A stored token row that carries the given token and has not expired.\<close>

definition usable_token :: "string \<Rightarrow> int \<Rightarrow> store \<Rightarrow> bool" where
  "usable_token tok now db =
     list_ex (\<lambda>r. PasswordResetToken_token r = tok \<and> now \<le> PasswordResetToken_expires_at r)
       (password_reset_tokens db)"

section \<open>Products (\<^verbatim>\<open>routers/products.py\<close>)\<close>

text \<open>
  Every handler receives \<open>current_user\<close>, the user that \<^verbatim>\<open>oauth2.get_current_user\<close>
  resolved from the bearer token. \<^verbatim>\<open>schemas.ProductResponse\<close> has exactly the columns of
  \<^verbatim>\<open>models.Product\<close>, so a product response is the row itself. Python's truth test of an
  optional string parameter (\<^verbatim>\<open>if status:\<close>) holds for a non-empty string only.
\<close>

fun truthy :: "string option \<Rightarrow> bool" where
  "truthy None = False"
| "truthy (Some s) = (s \<noteq> [])"

text \<open>
  \<^verbatim>\<open>create_product\<close>. The uploaded image \<open>upload\<close> is its content type and the file
  name the handler draws for it; \<open>parse_raw\<close> is
  \<^verbatim>\<open>schemas.ProductMetadata.parse_raw\<close>, which gives the metadata to store (\<open>Inr\<close>) or
  raises (\<open>Inl\<close>, with the message). Writing the file to disk is outside the store.
\<close>

definition create_product ::
  "(string \<Rightarrow> string + string) \<Rightarrow> int \<Rightarrow> User \<Rightarrow> string \<Rightarrow> string option \<Rightarrow> string
     \<Rightarrow> string option \<Rightarrow> string \<times> string \<Rightarrow> store \<Rightarrow> (failure + Product) \<times> store" where
  "create_product parse_raw now current_user name description category meta_data upload db =
     (if User_role current_user \<noteq> ''manufacturer''
      then (Inl (HTTPException 403 ''Only manufacturers can create products''), db)
      else if fst upload \<notin> set [''image/png'', ''image/jpeg'']
      then (Inl (HTTPException 400 ''Only PNG or JPEG images allowed''), db)
      else
        case (if truthy meta_data then map_sum id Some (parse_raw (the meta_data))
              else Inr None) of
          Inl e \<Rightarrow> (Inl (HTTPException 400 (''Invalid product data: '' @ e)), db)
        | Inr parsed \<Rightarrow>
            let db_product =
                  \<lparr>Product_id = fresh_id (map Product_id (products db)),
                   Product_name = name,
                   Product_description = description,
                   Product_manufacturer_id = Some (User_id current_user),
                   Product_category = category,
                   Product_meta_data = parsed,
                   Product_image_url = ''/static/'' @ snd upload,
                   Product_status = ''active'',
                   Product_created_at = now\<rparr>
            in (Inr db_product, db\<lparr>products := products db @ [db_product]\<rparr>))"


text \<open>
  The combined lookup by id and owner that \<^verbatim>\<open>get_product\<close>, \<^verbatim>\<open>update_product\<close>,
  \<^verbatim>\<open>delete_product\<close> and \<^verbatim>\<open>assign_tags_to_product\<close> all start with.
\<close>

definition owned_product :: "int \<Rightarrow> User \<Rightarrow> store \<Rightarrow> Product option" where
  "owned_product pid current_user db =
     find (\<lambda>p. Product_id p = pid \<and> Product_manufacturer_id p = Some (User_id current_user))
       (products db)"


text \<open>
  \<^verbatim>\<open>update_product\<close>. Each of the optional form fields replaces its column when it is
  given; an upload of another type raises 400, and metadata that does not parse leaves the
  handler as an unhandled exception. Both happen before the commit, so nothing is written.
\<close>

definition update_product ::
  "(string \<Rightarrow> string + string) \<Rightarrow> User \<Rightarrow> int \<Rightarrow> string option \<Rightarrow> string option
     \<Rightarrow> string option \<Rightarrow> string option \<Rightarrow> (string \<times> string) option \<Rightarrow> store
     \<Rightarrow> (failure + Product) \<times> store" where
  "update_product parse_raw current_user pid name description category meta_data upload db =
     (if User_role current_user \<noteq> ''manufacturer''
      then (Inl (HTTPException 403 ''Only manufacturers can update products''), db)
      else case owned_product pid current_user db of
        None \<Rightarrow> (Inl (HTTPException 404 ''Product not found or not owned''), db)
      | Some db_product \<Rightarrow>
          if upload \<noteq> None \<and> fst (the upload) \<notin> set [''image/png'', ''image/jpeg'']
          then (Inl (HTTPException 400 ''Only PNG or JPEG images allowed''), db)
          else
            case (case meta_data of None \<Rightarrow> Inr None
                  | Some m \<Rightarrow> map_sum id Some (parse_raw m)) of
              Inl e \<Rightarrow> (Inl (Unhandled e), db)
            | Inr parsed \<Rightarrow>
                let p1 = (case upload of None \<Rightarrow> db_product
                          | Some i \<Rightarrow> db_product\<lparr>Product_image_url := ''/static/'' @ snd i\<rparr>);
                    p2 = (case name of None \<Rightarrow> p1 | Some n \<Rightarrow> p1\<lparr>Product_name := n\<rparr>);
                    p3 = (case description of None \<Rightarrow> p2
                          | Some d \<Rightarrow> p2\<lparr>Product_description := Some d\<rparr>);
                    p4 = (case category of None \<Rightarrow> p3
                          | Some c \<Rightarrow> p3\<lparr>Product_category := c\<rparr>);
                    p5 = (case parsed of None \<Rightarrow> p4
                          | Some m \<Rightarrow> p4\<lparr>Product_meta_data := Some m\<rparr>)
                in (Inr p5,
                    db\<lparr>products :=
                         map (\<lambda>q. if Product_id q = Product_id db_product then p5 else q)
                           (products db)\<rparr>))"

text \<open>
  \<^verbatim>\<open>delete_product\<close>: the row found by id and owner gets the status \<^verbatim>\<open>inactive\<close>; the
  update is written by primary key. The route answers 204 with no body.
\<close>

definition delete_product :: "User \<Rightarrow> int \<Rightarrow> store \<Rightarrow> (failure + unit) \<times> store" where
  "delete_product current_user pid db =
     (if User_role current_user \<noteq> ''manufacturer''
      then (Inl (HTTPException 403 ''Only manufacturers can delete products''), db)
      else case owned_product pid current_user db of
        None \<Rightarrow> (Inl (HTTPException 404 ''Product not found or not owned''), db)
      | Some product \<Rightarrow>
          (Inr (),
           db\<lparr>products :=
                map (\<lambda>q. if Product_id q = Product_id product
                          then q\<lparr>Product_status := ''inactive''\<rparr> else q) (products db)\<rparr>))"


section \<open>Users (\<^verbatim>\<open>routers/users.py\<close>)\<close>

text \<open>
  \<^verbatim>\<open>update_current_user_profile\<close> and \<^verbatim>\<open>update_user_role\<close>; both write the changed
  user by primary key.
\<close>

definition update_current_user_profile ::
  "User \<Rightarrow> string option \<Rightarrow> string option \<Rightarrow> store \<Rightarrow> (failure + UserResponse) \<times> store" where
  "update_current_user_profile current_user email name db =
     (if truthy email \<and> the email \<noteq> User_email current_user
         \<and> find (\<lambda>u. User_email u = the email) (users db) \<noteq> None
      then (Inl (HTTPException 400 ''Email already taken''), db)
      else
        let set_email = (\<lambda>u. if truthy email \<and> the email \<noteq> User_email current_user
                               then u\<lparr>User_email := the email\<rparr> else u);
            set_name = (\<lambda>u. case name of None \<Rightarrow> u | Some n \<Rightarrow> u\<lparr>User_name := Some n\<rparr>)
        in (Inr (UserResponse_from_orm (set_name (set_email current_user))),
            db\<lparr>users := map (\<lambda>u. if User_id u = User_id current_user
                                    then set_name (set_email u) else u) (users db)\<rparr>))"

definition update_user_role ::
  "User \<Rightarrow> int \<Rightarrow> string \<Rightarrow> store \<Rightarrow> (failure + UserResponse) \<times> store" where
  "update_user_role current_user uid role db =
     (if User_role current_user \<noteq> ''admin''
      then (Inl (HTTPException 403 ''Only admins can update roles''), db)
      else if role \<notin> set [''manufacturer'', ''admin'']
      then (Inl (HTTPException 400 ''Invalid role''), db)
      else case find (\<lambda>u. User_id u = uid) (users db) of
        None \<Rightarrow> (Inl (HTTPException 404 ''User not found''), db)
      | Some user \<Rightarrow>
          (Inr (UserResponse_from_orm (user\<lparr>User_role := role\<rparr>)),
           db\<lparr>users := map (\<lambda>u. if User_id u = User_id user then u\<lparr>User_role := role\<rparr> else u)
                           (users db)\<rparr>))"

section \<open>Minting and assignment of tags (\<^verbatim>\<open>routers/tags.py\<close>)\<close>

text \<open>
  A request runs in one database session (\<^verbatim>\<open>database.get_db\<close>): the rows that
  \<^verbatim>\<open>db.add\<close> and \<^verbatim>\<open>db.flush\<close> write, and the attribute writes on loaded objects, are
  pending until \<^verbatim>\<open>db.commit\<close>; \<^verbatim>\<open>db.rollback\<close> discards them; what is still pending
  when the request ends is discarded with the session. The other handlers commit right
  after their writes and are written as functions on the store directly; the minting
  handlers roll back, so they are written with the session.
\<close>

record session =
  committed :: store
  pending :: store

definition open_session :: "store \<Rightarrow> session" where
  "open_session db = \<lparr>committed = db, pending = db\<rparr>"

definition commit :: "session \<Rightarrow> session" where
  "commit s = s\<lparr>committed := pending s\<rparr>"

definition rollback :: "session \<Rightarrow> session" where
  "rollback s = s\<lparr>pending := committed s\<rparr>"

definition close :: "session \<Rightarrow> store" where
  "close s = committed s"

definition add_batch :: "Batch \<Rightarrow> session \<Rightarrow> session" where
  "add_batch b s = s\<lparr>pending := (pending s)\<lparr>batches := batches (pending s) @ [b]\<rparr>\<rparr>"

definition add_all_tags :: "Tag list \<Rightarrow> session \<Rightarrow> session" where
  "add_all_tags ts s = s\<lparr>pending := (pending s)\<lparr>tags := tags (pending s) @ ts\<rparr>\<rparr>"

text \<open>
  An attribute write on the batch object reaches the row of that batch in the pending
  state, when the session holds one.
\<close>

definition set_batch :: "int \<Rightarrow> (Batch \<Rightarrow> Batch) \<Rightarrow> session \<Rightarrow> session" where
  "set_batch bid f s =
     s\<lparr>pending := (pending s)\<lparr>batches :=
          map (\<lambda>b. if Batch_id b = bid then f b else b) (batches (pending s))\<rparr>\<rparr>"

record TagGenerationRequest =
  TagGenerationRequest_product_id :: "int option"
  TagGenerationRequest_count :: int
  TagGenerationRequest_mint_type :: string

text \<open>
  The tag rows of a minted batch, one for each code: \<open>first_id\<close> is the first free key
  of the tag table and \<open>token k\<close> the \<open>k\<close>-th token drawn.
\<close>

definition make_tags ::
  "int \<Rightarrow> (nat \<Rightarrow> string) \<Rightarrow> string \<Rightarrow> string \<Rightarrow> int option \<Rightarrow> int \<Rightarrow> int \<Rightarrow> string list
     \<Rightarrow> Tag list" where
  "make_tags first_id token tx_hash status product_id batch_id now tag_codes =
     map (\<lambda>(k, code).
            \<lparr>Tag_id = first_id + int k,
             Tag_tag_code = code,
             Tag_token_id = ''TOKEN_'' @ token k,
             Tag_blockchain_tx_hash = Some tx_hash,
             Tag_status = status,
             Tag_product_id = product_id,
             Tag_batch_id = batch_id,
             Tag_created_at = now\<rparr>)
         (enumerate 0 tag_codes)"

text \<open>
  \<^verbatim>\<open>mint_warehouse_tags\<close>. \<open>uuid4 k\<close> is the \<open>k\<close>-th value that \<^verbatim>\<open>uuid4()\<close> draws in the
  request (\<^verbatim>\<open>range(count)\<close> is empty for a negative count); \<open>mint_warehouse_batch\<close> is
  the call to the blockchain service, which returns the transaction hash (\<open>Inr\<close>) or
  raises (\<open>Inl\<close>, with the message). The response is the batch row.

  In the \<^verbatim>\<open>except\<close> branch the source rolls the session back, then writes
  \<^verbatim>\<open>batch.status = "failed"\<close>, then raises the 500; no commit follows the write.
\<close>

definition mint_warehouse_tags ::
  "(nat \<Rightarrow> string) \<Rightarrow> (string list \<Rightarrow> string + string) \<Rightarrow> int \<Rightarrow> TagGenerationRequest \<Rightarrow> User
     \<Rightarrow> store \<Rightarrow> (failure + Batch) \<times> store" where
  "mint_warehouse_tags uuid4 mint_warehouse_batch now request current_user db =
     (if TagGenerationRequest_mint_type request \<noteq> ''warehouse''
      then (Inl (HTTPException 400 (''mint_type must be '' @ [CHR 39] @ ''warehouse'' @ [CHR 39]
                                     @ '' for this endpoint.'')), db)
      else
        let n = nat (TagGenerationRequest_count request);
            tag_codes = map uuid4 [0..<n];
            batch = \<lparr>Batch_id = fresh_id (map Batch_id (batches db)),
                     Batch_product_id = None,
                     Batch_manufacturer_id = User_id current_user,
                     Batch_count = TagGenerationRequest_count request,
                     Batch_status = ''pending'',
                     Batch_mint_type = ''warehouse'',
                     Batch_blockchain_tx_hash = None,
                     Batch_created_at = now\<rparr>;
            s = add_batch batch (open_session db)
        in case mint_warehouse_batch tag_codes of
             Inr tx_hash \<Rightarrow>
               let minted = (\<lambda>b. b\<lparr>Batch_blockchain_tx_hash := Some tx_hash,
                                   Batch_status := ''minted''\<rparr>);
                   s = set_batch (Batch_id batch) minted s;
                   new_tags = make_tags (fresh_id (map Tag_id (tags db))) (\<lambda>k. uuid4 (n + k))
                            tx_hash ''unused'' None (Batch_id batch) now tag_codes;
                   s = add_all_tags new_tags s;
                   s = commit s
               in (Inr (minted batch), close s)
           | Inl e \<Rightarrow>
               let s = rollback s;
                   s = set_batch (Batch_id batch) (\<lambda>b. b\<lparr>Batch_status := ''failed''\<rparr>) s
               in (Inl (HTTPException 500 (''Minting failed: '' @ e)), close s))"

text \<open>
  \<^verbatim>\<open>mint_direct_tags\<close>: the same with a product. \<^verbatim>\<open>not request.product_id\<close> holds for
  a missing product id and for 0.
\<close>

definition mint_direct_tags ::
  "(nat \<Rightarrow> string) \<Rightarrow> (string list \<Rightarrow> int \<Rightarrow> string + string) \<Rightarrow> int \<Rightarrow> TagGenerationRequest
     \<Rightarrow> User \<Rightarrow> store \<Rightarrow> (failure + Batch) \<times> store" where
  "mint_direct_tags uuid4 mint_tags_in_bulk now request current_user db =
     (if TagGenerationRequest_mint_type request \<noteq> ''direct''
         \<or> TagGenerationRequest_product_id request = None
         \<or> TagGenerationRequest_product_id request = Some 0
      then (Inl (HTTPException 400 (''mint_type must be '' @ [CHR 39] @ ''direct'' @ [CHR 39]
                                     @ '' and product_id is required.'')), db)
      else
        let n = nat (TagGenerationRequest_count request);
            product_id = the (TagGenerationRequest_product_id request);
            tag_codes = map uuid4 [0..<n];
            batch = \<lparr>Batch_id = fresh_id (map Batch_id (batches db)),
                     Batch_product_id = Some product_id,
                     Batch_manufacturer_id = User_id current_user,
                     Batch_count = TagGenerationRequest_count request,
                     Batch_status = ''pending'',
                     Batch_mint_type = ''direct'',
                     Batch_blockchain_tx_hash = None,
                     Batch_created_at = now\<rparr>;
            s = add_batch batch (open_session db)
        in case mint_tags_in_bulk tag_codes product_id of
             Inr tx_hash \<Rightarrow>
               let minted = (\<lambda>b. b\<lparr>Batch_blockchain_tx_hash := Some tx_hash,
                                   Batch_status := ''minted''\<rparr>);
                   s = set_batch (Batch_id batch) minted s;
                   new_tags = make_tags (fresh_id (map Tag_id (tags db))) (\<lambda>k. uuid4 (n + k))
                            tx_hash ''active'' (Some product_id) (Batch_id batch) now tag_codes;
                   s = add_all_tags new_tags s;
                   s = commit s
               in (Inr (minted batch), close s)
           | Inl e \<Rightarrow>
               let s = rollback s;
                   s = set_batch (Batch_id batch) (\<lambda>b. b\<lparr>Batch_status := ''failed''\<rparr>) s
               in (Inl (HTTPException 500 (''Direct minting failed: '' @ e)), close s))"

text \<open>
  \<^verbatim>\<open>assign_tags_to_product\<close>. The pool query is
  \<^verbatim>\<open>select(Tag).where(Tag.status == "unused").limit(count)\<close>: the first \<open>count\<close> unused
  rows in table order. The database of \<^verbatim>\<open>database.py\<close> is PostgreSQL, which rejects a
  negative \<^verbatim>\<open>LIMIT\<close>; the handler does not catch that error. The update is one
  statement on every tag whose code is among the selected codes.
\<close>

record BatchAssignmentResponse =
  BatchAssignmentResponse_message :: string
  BatchAssignmentResponse_assigned_tag_codes :: "string list"

definition assign_tags_to_product ::
  "int \<Rightarrow> int \<Rightarrow> User \<Rightarrow> store \<Rightarrow> (failure + BatchAssignmentResponse) \<times> store" where
  "assign_tags_to_product product_id count current_user db =
     (if User_role current_user \<noteq> ''manufacturer''
      then (Inl (HTTPException 403 ''Only manufacturers can generate tags.''), db)
      else case owned_product product_id current_user db of
        None \<Rightarrow> (Inl (HTTPException 404 ''Product not found or not owned by manufacturer.''), db)
      | Some product \<Rightarrow>
          if count < 0 then (Inl (Unhandled ''LIMIT must not be negative''), db)
          else
            let available_tags =
                  take (nat count) (filter (\<lambda>t. Tag_status t = ''unused'') (tags db))
            in if int (length available_tags) < count
               then (Inl (HTTPException 400
                       (''Not enough tags available. Only ''
                          @ str_int (int (length available_tags))
                          @ '' tags are in stock. Please contact TrueTag admin.'')), db)
               else
                 let assigned_tag_codes = map Tag_tag_code available_tags
                 in (Inr \<lparr>BatchAssignmentResponse_message =
                             ''Successfully assigned '' @ str_int (int (length available_tags))
                               @ '' tags to product '' @ [CHR 39] @ Product_name product
                               @ [CHR 39] @ '' (ID: '' @ str_int product_id @ '').'',
                           BatchAssignmentResponse_assigned_tag_codes = assigned_tag_codes\<rparr>,
                     db\<lparr>tags :=
                          map (\<lambda>t. if Tag_tag_code t \<in> set assigned_tag_codes
                                    then t\<lparr>Tag_product_id := Some (Product_id product),
                                           Tag_status := ''active''\<rparr>
                                    else t) (tags db)\<rparr>))"


section \<open>Verification (\<^verbatim>\<open>routers/tags.py\<close> and \<^verbatim>\<open>routers/verify.py\<close>)\<close>

text \<open>
  Both modules define a handler named \<^verbatim>\<open>verify_tag\<close>: \<open>tags_verify_tag\<close> is the one of
  \<^verbatim>\<open>routers/tags.py\<close> (\<^verbatim>\<open>GET /tags/verify/{tag_code}\<close>, with the on-chain check) and
  \<open>verify_verify_tag\<close> the one of \<^verbatim>\<open>routers/verify.py\<close> (\<^verbatim>\<open>GET /verify/{tag_code}\<close>,
  public, with the duplicate check). \<open>Tag_product\<close> is the relationship \<^verbatim>\<open>tag.product\<close>
  that the query loads with the tag: the product of the tag's \<^verbatim>\<open>product_id\<close>, if any.
\<close>

definition Tag_product :: "store \<Rightarrow> Tag \<Rightarrow> Product option" where
  "Tag_product db tag =
     (case Tag_product_id tag of
        None \<Rightarrow> None
      | Some pid \<Rightarrow> find (\<lambda>p. Product_id p = pid) (products db))"

text \<open>
  The on-chain check. \<open>contract\<close> is \<open>None\<close> when the module could not set the contract
  up; otherwise it maps the token id of a tag to the outcome of the \<^verbatim>\<open>try\<close> block around
  \<^verbatim>\<open>contract.functions.ownerOf(int(tag.token_id)).call()\<close>: the owner returned, a
  \<^verbatim>\<open>ContractLogicError\<close>, or any other exception. \<open>expected_owner\<close> is the checksum
  address of \<^verbatim>\<open>settings.ADMIN_WALLET\<close>.
\<close>

datatype owner_call = Owner string | ContractLogicError string | OtherException string

definition tags_verification_result ::
  "(string \<Rightarrow> owner_call) option \<Rightarrow> string \<Rightarrow> Tag \<Rightarrow> string" where
  "tags_verification_result contract expected_owner tag =
     (let verification_result =
            (if Tag_status tag \<in> set [''unused'', ''flagged''] then ''invalid'' else ''valid'')
      in if verification_result = ''valid'' \<and> contract \<noteq> None
         then (case the contract (Tag_token_id tag) of
                 Owner token_owner \<Rightarrow>
                   if token_owner \<noteq> expected_owner then ''tampered'' else verification_result
               | ContractLogicError e \<Rightarrow> ''invalid''
               | OtherException e \<Rightarrow> ''blockchain_error'')
         else verification_result)"

text \<open>
  A handler ends by calling \<^verbatim>\<open>schemas.VerificationResponse\<close> with keyword arguments.
  Two classes of that name exist (\<^verbatim>\<open>schemas/scan.py\<close>, \<^verbatim>\<open>schemas/verification.py\<close>) and
  the package picks one in \<^verbatim>\<open>schemas/__init__.py\<close>, so the class is a parameter of the
  handlers, \<open>response\<close>: it maps the keyword arguments to the response object or raises
  a validation error. The records \<open>TagVerification\<close> and \<open>VerificationResponse\<close> are
  the keyword arguments that \<^verbatim>\<open>tags.verify_tag\<close> and \<^verbatim>\<open>verify.verify_tag\<close> pass.
  Reading \<^verbatim>\<open>tag.product.name\<close> of a tag without product raises \<^verbatim>\<open>AttributeError\<close>,
  which nothing catches. The scan is committed before the response is built.
\<close>

record TagVerification =
  TagVerification_tag_id :: int
  TagVerification_tag_code :: string
  TagVerification_verification_result :: string
  TagVerification_product_name :: string
  TagVerification_product_image_url :: string

definition tags_verify_tag ::
  "(TagVerification \<Rightarrow> failure + 'r) \<Rightarrow> (string \<Rightarrow> owner_call) option \<Rightarrow> string \<Rightarrow> int
     \<Rightarrow> string \<Rightarrow> string option \<Rightarrow> store \<Rightarrow> (failure + 'r) \<times> store" where
  "tags_verify_tag response contract expected_owner now tag_code location db =
     (case find (\<lambda>t. Tag_tag_code t = tag_code) (tags db) of
        None \<Rightarrow> (Inl (HTTPException 404 ''Tag not found.''), db)
      | Some tag \<Rightarrow>
          let verification_result = tags_verification_result contract expected_owner tag;
              scan = \<lparr>Scan_id = fresh_id (map Scan_id (scans db)),
                      Scan_tag_id = Some (Tag_id tag),
                      Scan_user_id = None,
                      Scan_location = location,
                      Scan_verification_result = verification_result,
                      Scan_timestamp = now\<rparr>;
              db = db\<lparr>scans := scans db @ [scan]\<rparr>
          in case Tag_product db tag of
               None \<Rightarrow> (Inl (Unhandled ''AttributeError''), db)
             | Some product \<Rightarrow>
                 (response
                    \<lparr>TagVerification_tag_id = Tag_id tag,
                     TagVerification_tag_code = Tag_tag_code tag,
                     TagVerification_verification_result = verification_result,
                     TagVerification_product_name = Product_name product,
                     TagVerification_product_image_url = Product_image_url product\<rparr>,
                  db))"

text \<open>
  The public handler: the result depends on the status of the tag and on whether the scan
  table already holds a row for the tag.
\<close>

definition verify_verification_result :: "store \<Rightarrow> Tag \<Rightarrow> string" where
  "verify_verification_result db tag =
     (let existing_scan = find (\<lambda>s. Scan_tag_id s = Some (Tag_id tag)) (scans db)
      in if existing_scan = None \<and> Tag_status tag = ''active'' then ''valid''
         else if existing_scan \<noteq> None \<and> Tag_status tag = ''active'' then ''duplicate''
         else ''invalid'')"

record VerificationResponse =
  VerificationResponse_tag_id :: int
  VerificationResponse_tag_code :: string
  VerificationResponse_verification_result :: string
  VerificationResponse_product_name :: string
  VerificationResponse_product_description :: "string option"
  VerificationResponse_product_category :: string
  VerificationResponse_product_image_url :: string
  VerificationResponse_timestamp :: int

definition verify_verify_tag ::
  "(VerificationResponse \<Rightarrow> failure + 'r) \<Rightarrow> int \<Rightarrow> string \<Rightarrow> string option \<Rightarrow> store
     \<Rightarrow> (failure + 'r) \<times> store" where
  "verify_verify_tag response now tag_code location db =
     (case find (\<lambda>t. Tag_tag_code t = tag_code) (tags db) of
        None \<Rightarrow> (Inl (HTTPException 404 ''Tag not found''), db)
      | Some tag \<Rightarrow>
          let verification_result = verify_verification_result db tag;
              scan = \<lparr>Scan_id = fresh_id (map Scan_id (scans db)),
                      Scan_tag_id = Some (Tag_id tag),
                      Scan_user_id = None,
                      Scan_location = location,
                      Scan_verification_result = verification_result,
                      Scan_timestamp = now\<rparr>;
              db = db\<lparr>scans := scans db @ [scan]\<rparr>
          in case Tag_product db tag of
               None \<Rightarrow> (Inl (HTTPException 500 ''Associated product not found.''), db)
             | Some product \<Rightarrow>
                 (response
                    \<lparr>VerificationResponse_tag_id = Tag_id tag,
                     VerificationResponse_tag_code = Tag_tag_code tag,
                     VerificationResponse_verification_result = verification_result,
                     VerificationResponse_product_name = Product_name product,
                     VerificationResponse_product_description = Product_description product,
                     VerificationResponse_product_category = Product_category product,
                     VerificationResponse_product_image_url = Product_image_url product,
                     VerificationResponse_timestamp = Scan_timestamp scan\<rparr>,
                  db))"

text \<open>A run of public scans of one code, each with its time and location.\<close>

fun verify_all ::
  "(VerificationResponse \<Rightarrow> failure + 'r) \<Rightarrow> string \<Rightarrow> (int \<times> string option) list \<Rightarrow> store
     \<Rightarrow> store" where
  "verify_all response tag_code [] db = db"
| "verify_all response tag_code ((now, location) # rest) db =
     verify_all response tag_code rest
       (snd (verify_verify_tag response now tag_code location db))"

section \<open>The routes of the application (\<^verbatim>\<open>main.py\<close>)\<close>

text \<open>
  The collaborators of the handlers, and the requests that can write to the store, one
  for each route of the routers that \<^verbatim>\<open>main.py\<close> registers. The remaining routes
  (\<^verbatim>\<open>POST /auth/login\<close>, \<^verbatim>\<open>GET /users/me\<close>, the two dashboard queries and the health
  check) only read. \<open>handle\<close> gives the store after a request.
\<close>

record ('r, 's) env =
  env_hash_password :: "string \<Rightarrow> string"
  env_now :: int
  env_token_urlsafe :: string
  env_uuid4 :: "nat \<Rightarrow> string"
  env_parse_raw :: "string \<Rightarrow> string + string"
  env_mint_warehouse_batch :: "string list \<Rightarrow> string + string"
  env_mint_tags_in_bulk :: "string list \<Rightarrow> int \<Rightarrow> string + string"
  env_contract :: "(string \<Rightarrow> owner_call) option"
  env_expected_owner :: string
  env_tags_response :: "TagVerification \<Rightarrow> failure + 'r"
  env_verify_response :: "VerificationResponse \<Rightarrow> failure + 's"

datatype request =
    Register UserCreate
  | PasswordResetRequest string
  | PasswordResetConfirm PasswordReset
  | UpdateProfile User "string option" "string option"
  | UpdateRole User int string
  | CreateProduct User string "string option" string "string option" "string \<times> string"
  | ListProducts User "string option" "string option"
  | GetProduct User int
  | UpdateProduct User int "string option" "string option" "string option" "string option"
      "(string \<times> string) option"
  | DeleteProduct User int
  | MintWarehouse User TagGenerationRequest
  | MintDirect User TagGenerationRequest
  | AssignTags User int int
  | TagsVerify string "string option"
  | Verify string "string option"

fun handle :: "('r, 's) env \<Rightarrow> request \<Rightarrow> store \<Rightarrow> store" where
  "handle e (Register user_in) db =
     snd (register_user (env_hash_password e) (env_now e) user_in db)"
| "handle e (PasswordResetRequest email) db =
     snd (request_password_reset (env_token_urlsafe e) (env_now e) email db)"
| "handle e (PasswordResetConfirm payload) db =
     snd (reset_password (env_hash_password e) (env_now e) payload db)"
| "handle e (UpdateProfile cu email name) db =
     snd (update_current_user_profile cu email name db)"
| "handle e (UpdateRole cu uid role) db = snd (update_user_role cu uid role db)"
| "handle e (CreateProduct cu name description category meta_data upload) db =
     snd (create_product (env_parse_raw e) (env_now e) cu name description category
            meta_data upload db)"
| "handle e (ListProducts cu status category) db = db"
| "handle e (GetProduct cu pid) db = db"
| "handle e (UpdateProduct cu pid name description category meta_data upload) db =
     snd (update_product (env_parse_raw e) cu pid name description category meta_data
            upload db)"
| "handle e (DeleteProduct cu pid) db = snd (delete_product cu pid db)"
| "handle e (MintWarehouse cu req) db =
     snd (mint_warehouse_tags (env_uuid4 e) (env_mint_warehouse_batch e) (env_now e) req cu db)"
| "handle e (MintDirect cu req) db =
     snd (mint_direct_tags (env_uuid4 e) (env_mint_tags_in_bulk e) (env_now e) req cu db)"
| "handle e (AssignTags cu pid count) db = snd (assign_tags_to_product pid count cu db)"
| "handle e (TagsVerify tag_code location) db =
     snd (tags_verify_tag (env_tags_response e) (env_contract e) (env_expected_owner e)
            (env_now e) tag_code location db)"
| "handle e (Verify tag_code location) db =
     snd (verify_verify_tag (env_verify_response e) (env_now e) tag_code location db)"

section \<open>Example data\<close>

definition alice :: User where
  "alice = \<lparr>User_id = 1, User_email = ''a@x.io'', User_password = ''h:pw'',
            User_role = ''manufacturer'', User_name = Some ''Alice'', User_created_at = 100\<rparr>"

definition empty_store :: store where
  "empty_store = \<lparr>users = [], products = [], batches = [], tags = [], scans = [],
                  password_reset_tokens = []\<rparr>"

definition toy_hash :: "string \<Rightarrow> string" where
  "toy_hash p = ''h:'' @ p"

definition bob_in :: UserCreate where
  "bob_in = \<lparr>UserCreate_email = ''b@x.io'', UserCreate_name = None,
             UserCreate_role = ''admin'', UserCreate_password = ''pw''\<rparr>"

definition alice_token :: PasswordResetToken where
  "alice_token = \<lparr>PasswordResetToken_id = 1, PasswordResetToken_user_id = 1,
                  PasswordResetToken_token = ''tok1'', PasswordResetToken_expires_at = 5000\<rparr>"

definition reset_store :: store where
  "reset_store = empty_store\<lparr>users := [alice], password_reset_tokens := [alice_token]\<rparr>"

definition widget :: Product where
  "widget = \<lparr>Product_id = 1, Product_name = ''Widget'', Product_description = None,
             Product_manufacturer_id = Some 1, Product_category = ''tools'',
             Product_meta_data = None, Product_image_url = ''/static/w.png'',
             Product_status = ''active'', Product_created_at = 200\<rparr>"


definition tag1 :: Tag where
  "tag1 = \<lparr>Tag_id = 1, Tag_tag_code = ''c1'', Tag_token_id = ''TOKEN_1'',
           Tag_blockchain_tx_hash = Some ''0xaa'', Tag_status = ''unused'',
           Tag_product_id = None, Tag_batch_id = 1, Tag_created_at = 300\<rparr>"

definition tag2 :: Tag where
  "tag2 = \<lparr>Tag_id = 2, Tag_tag_code = ''c2'', Tag_token_id = ''TOKEN_2'',
           Tag_blockchain_tx_hash = Some ''0xaa'', Tag_status = ''active'',
           Tag_product_id = Some 1, Tag_batch_id = 1, Tag_created_at = 300\<rparr>"

definition tag3 :: Tag where
  "tag3 = \<lparr>Tag_id = 3, Tag_tag_code = ''c3'', Tag_token_id = ''TOKEN_3'',
           Tag_blockchain_tx_hash = Some ''0xaa'', Tag_status = ''unused'',
           Tag_product_id = None, Tag_batch_id = 1, Tag_created_at = 300\<rparr>"

definition batch1 :: Batch where
  "batch1 = \<lparr>Batch_id = 1, Batch_product_id = None, Batch_manufacturer_id = 2,
             Batch_count = 3, Batch_status = ''minted'', Batch_mint_type = ''warehouse'',
             Batch_blockchain_tx_hash = Some ''0xaa'', Batch_created_at = 300\<rparr>"

definition root :: User where
  "root = \<lparr>User_id = 2, User_email = ''root@x.io'', User_password = ''h:r'',
           User_role = ''admin'', User_name = None, User_created_at = 90\<rparr>"

definition tag_store :: store where
  "tag_store = empty_store\<lparr>users := [alice, root], products := [widget],
                 batches := [batch1], tags := [tag1, tag2, tag3]\<rparr>"

definition toy_uuid4 :: "nat \<Rightarrow> string" where
  "toy_uuid4 k = ''u'' @ replicate k CHR ''x''"

definition chain_down :: "string list \<Rightarrow> string + string" where
  "chain_down codes = Inl ''rpc unreachable''"

definition chain_down_direct :: "string list \<Rightarrow> int \<Rightarrow> string + string" where
  "chain_down_direct codes owner = Inl ''rpc unreachable''"

definition chain_up :: "string list \<Rightarrow> string + string" where
  "chain_up codes = Inr ''0xbb''"

definition scan1 :: Scan where
  "scan1 = \<lparr>Scan_id = 1, Scan_tag_id = Some 2, Scan_user_id = None, Scan_location = None,
            Scan_verification_result = ''valid'', Scan_timestamp = 500\<rparr>"

definition accept :: "VerificationResponse \<Rightarrow> failure + VerificationResponse" where
  "accept kwargs = Inr kwargs"

definition reject :: "TagVerification \<Rightarrow> failure + unit" where
  "reject kwargs = Inl (Unhandled ''ValidationError'')"

definition toy_env :: "(unit, VerificationResponse) env" where
  "toy_env = \<lparr>env_hash_password = toy_hash, env_now = 600, env_token_urlsafe = ''t9'',
              env_uuid4 = toy_uuid4, env_parse_raw = Inr,
              env_mint_warehouse_batch = chain_up,
              env_mint_tags_in_bulk = chain_down_direct,
              env_contract = None, env_expected_owner = ''0xAD'',
              env_tags_response = reject, env_verify_response = accept\<rparr>"

section \<open>Properties of registration\<close>

lemma register_user_ignores_role:
  "register_user h now (u\<lparr>UserCreate_role := r\<rparr>) db = register_user h now u db"
  by (simp add: register_user_def split: option.splits)

text \<open>
  Claim C5. A registration that succeeds appends exactly one user, whose role is
  \<^verbatim>\<open>manufacturer\<close>, and answers with that role, whatever role the request carried; two
  requests that differ only in the role they carry have the same outcome (response and
  store).
\<close>

theorem register_user_role_fixed:
  "register_user h now (u\<lparr>UserCreate_role := r1\<rparr>) db
     = register_user h now (u\<lparr>UserCreate_role := r2\<rparr>) db
   \<and> (register_user h now u db = (Inr resp, db') \<longrightarrow>
        UserResponse_role resp = ''manufacturer''
        \<and> (\<exists>usr. users db' = users db @ [usr] \<and> User_role usr = ''manufacturer''
                 \<and> User_email usr = UserCreate_email u))"
  by (auto simp: register_user_def UserResponse_from_orm_def Let_def split: option.splits)

theorem register_user_role_fixed_witness:
  "register_user toy_hash 7 bob_in empty_store
     = (Inr \<lparr>UserResponse_email = ''b@x.io'', UserResponse_name = None,
             UserResponse_role = ''manufacturer'', UserResponse_id = 1,
             UserResponse_created_at = 7\<rparr>,
        empty_store\<lparr>users := [\<lparr>User_id = 1, User_email = ''b@x.io'', User_password = ''h:pw'',
            User_role = ''manufacturer'', User_name = None, User_created_at = 7\<rparr>]\<rparr>)
   \<and> UserResponse_role \<lparr>UserResponse_email = ''b@x.io'', UserResponse_name = None,
             UserResponse_role = ''manufacturer'', UserResponse_id = 1,
             UserResponse_created_at = 7\<rparr> = ''manufacturer''"
proof -
  have run: "register_user toy_hash 7 bob_in empty_store
     = (Inr \<lparr>UserResponse_email = ''b@x.io'', UserResponse_name = None,
             UserResponse_role = ''manufacturer'', UserResponse_id = 1,
             UserResponse_created_at = 7\<rparr>,
        empty_store\<lparr>users := [\<lparr>User_id = 1, User_email = ''b@x.io'', User_password = ''h:pw'',
            User_role = ''manufacturer'', User_name = None, User_created_at = 7\<rparr>]\<rparr>)"
    by (simp add: register_user_def UserResponse_from_orm_def empty_store_def bob_in_def
        toy_hash_def fresh_id_def)
  from register_user_role_fixed [where h = toy_hash and now = 7 and u = bob_in
      and ?r1.0 = "''admin''" and ?r2.0 = "''manufacturer''" and db = empty_store] run
  show ?thesis by simp
qed

text \<open>
  Claim C6. A registration whose e-mail is already that of a stored user fails with
  status 400 (\<^verbatim>\<open>Email already registered\<close>) and returns the store as it was.
\<close>

theorem register_user_duplicate_email:
  "UserCreate_email u \<in> set (map User_email (users db)) \<Longrightarrow>
   register_user h now u db = (Inl (HTTPException 400 ''Email already registered''), db)"
proof -
  assume "UserCreate_email u \<in> set (map User_email (users db))"
  then have "find (\<lambda>x. User_email x = UserCreate_email u) (users db) \<noteq> None"
    by (auto simp: find_None_iff)
  then show ?thesis
    by (auto simp: register_user_def)
qed

theorem register_user_duplicate_email_witness:
  "UserCreate_email (bob_in\<lparr>UserCreate_email := ''a@x.io''\<rparr>)
     \<in> set (map User_email (users (empty_store\<lparr>users := [alice]\<rparr>)))
   \<and> register_user toy_hash 7 (bob_in\<lparr>UserCreate_email := ''a@x.io''\<rparr>)
        (empty_store\<lparr>users := [alice]\<rparr>)
     = (Inl (HTTPException 400 ''Email already registered''), empty_store\<lparr>users := [alice]\<rparr>)"
proof -
  have h: "UserCreate_email (bob_in\<lparr>UserCreate_email := ''a@x.io''\<rparr>)
     \<in> set (map User_email (users (empty_store\<lparr>users := [alice]\<rparr>)))"
    by (simp add: alice_def)
  from register_user_duplicate_email [OF h, of toy_hash 7] h show ?thesis by simp
qed

section \<open>Properties of the password reset\<close>

lemma find_by_unique_key:
  "distinct (map f xs) \<Longrightarrow> x \<in> set xs \<Longrightarrow> find (\<lambda>y. f y = f x) xs = Some x"
  by (induction xs) (auto simp: image_iff)

lemma find_Some_mem: "find P xs = Some x \<Longrightarrow> x \<in> set xs \<and> P x"
  by (induction xs) (auto split: if_splits)

lemma request_password_reset_response:
  "fst (request_password_reset token now email db)
     = Inr (202, ''If an account exists, a reset link will be sent'')"
  by (simp add: request_password_reset_def Let_def split: option.splits)

text \<open>
  Claim C9. The response of a reset request is the same generic success (status 202 and
  the same body) for every store and every e-mail, so it does not tell whether an account
  exists. When a user has the e-mail, the store gains exactly one token row: it belongs to
  that user, carries the drawn token and expires 3600 seconds after the request; nothing
  else changes. When no user has the e-mail, the store is unchanged.
\<close>

theorem request_password_reset_generic:
  "fst (request_password_reset token now email db)
     = fst (request_password_reset token' now' email' db')
   \<and> fst (request_password_reset token now email db)
       = Inr (202, ''If an account exists, a reset link will be sent'')
   \<and> (email \<notin> set (map User_email (users db)) \<longrightarrow>
        snd (request_password_reset token now email db) = db)
   \<and> (email \<in> set (map User_email (users db)) \<longrightarrow>
        (\<exists>u row. find (\<lambda>u. User_email u = email) (users db) = Some u
           \<and> PasswordResetToken_user_id row = User_id u
           \<and> PasswordResetToken_token row = token
           \<and> PasswordResetToken_expires_at row = now + 3600
           \<and> snd (request_password_reset token now email db)
               = db\<lparr>password_reset_tokens := password_reset_tokens db @ [row]\<rparr>))"
proof (intro conjI impI)
  show "fst (request_password_reset token now email db)
     = fst (request_password_reset token' now' email' db')"
    by (simp only: request_password_reset_response)
  show "fst (request_password_reset token now email db)
       = Inr (202, ''If an account exists, a reset link will be sent'')"
    by (rule request_password_reset_response)
next
  assume "email \<notin> set (map User_email (users db))"
  then have "find (\<lambda>u. User_email u = email) (users db) = None"
    by (auto simp: find_None_iff)
  then show "snd (request_password_reset token now email db) = db"
    by (simp add: request_password_reset_def)
next
  assume "email \<in> set (map User_email (users db))"
  then have "find (\<lambda>u. User_email u = email) (users db) \<noteq> None"
    by (auto simp: find_None_iff)
  then obtain u where u: "find (\<lambda>u. User_email u = email) (users db) = Some u"
    by auto
  then show "\<exists>u row. find (\<lambda>u. User_email u = email) (users db) = Some u
           \<and> PasswordResetToken_user_id row = User_id u
           \<and> PasswordResetToken_token row = token
           \<and> PasswordResetToken_expires_at row = now + 3600
           \<and> snd (request_password_reset token now email db)
               = db\<lparr>password_reset_tokens := password_reset_tokens db @ [row]\<rparr>"
    by (intro exI [of _ u] exI [of _ "\<lparr>PasswordResetToken_id =
            fresh_id (map PasswordResetToken_id (password_reset_tokens db)),
          PasswordResetToken_user_id = User_id u, PasswordResetToken_token = token,
          PasswordResetToken_expires_at = now + 3600\<rparr>"])
      (simp add: request_password_reset_def Let_def)
qed

theorem request_password_reset_generic_witness:
  "fst (request_password_reset ''t9'' 50 ''a@x.io'' (empty_store\<lparr>users := [alice]\<rparr>))
     = fst (request_password_reset ''t9'' 50 ''a@x.io'' empty_store)
   \<and> ''a@x.io'' \<notin> set (map User_email (users empty_store))
   \<and> snd (request_password_reset ''t9'' 50 ''a@x.io'' empty_store) = empty_store
   \<and> ''a@x.io'' \<in> set (map User_email (users (empty_store\<lparr>users := [alice]\<rparr>)))
   \<and> snd (request_password_reset ''t9'' 50 ''a@x.io'' (empty_store\<lparr>users := [alice]\<rparr>))
       = empty_store\<lparr>users := [alice], password_reset_tokens :=
           [\<lparr>PasswordResetToken_id = 1, PasswordResetToken_user_id = 1,
             PasswordResetToken_token = ''t9'', PasswordResetToken_expires_at = 3650\<rparr>]\<rparr>"
proof -
  have a: "''a@x.io'' \<notin> set (map User_email (users empty_store))"
    by (simp add: empty_store_def)
  have b: "''a@x.io'' \<in> set (map User_email (users (empty_store\<lparr>users := [alice]\<rparr>)))"
    by (simp add: alice_def)
  have c: "snd (request_password_reset ''t9'' 50 ''a@x.io'' (empty_store\<lparr>users := [alice]\<rparr>))
       = empty_store\<lparr>users := [alice], password_reset_tokens :=
           [\<lparr>PasswordResetToken_id = 1, PasswordResetToken_user_id = 1,
             PasswordResetToken_token = ''t9'', PasswordResetToken_expires_at = 3650\<rparr>]\<rparr>"
    by (simp add: request_password_reset_def alice_def empty_store_def fresh_id_def)
  from request_password_reset_generic [where token = "''t9''" and now = 50
      and email = "''a@x.io''" and db = "empty_store\<lparr>users := [alice]\<rparr>"
      and token' = "''t9''" and now' = 50 and email' = "''a@x.io''" and db' = empty_store]
    request_password_reset_generic [where token = "''t9''" and now = 50
      and email = "''a@x.io''" and db = empty_store
      and token' = "''t9''" and now' = 50 and email' = "''a@x.io''" and db' = empty_store]
    a b c
  show ?thesis by simp
qed

lemma reset_password_unusable:
  "\<not> usable_token (PasswordReset_token p) now db \<Longrightarrow>
   reset_password h now p db = (Inl (HTTPException 400 ''Invalid or expired token''), db)"
proof (cases "find (\<lambda>r. PasswordResetToken_token r = PasswordReset_token p)
                (password_reset_tokens db)")
  case None
  then show ?thesis by (simp add: reset_password_def)
next
  case (Some token_rec)
  assume "\<not> usable_token (PasswordReset_token p) now db"
  moreover from Some have "token_rec \<in> set (password_reset_tokens db)"
    and "PasswordResetToken_token token_rec = PasswordReset_token p"
    using find_Some_mem by fastforce+
  ultimately have "PasswordResetToken_expires_at token_rec < now"
    by (auto simp: usable_token_def list_ex_iff)
  with Some show ?thesis by (simp add: reset_password_def)
qed

lemma reset_password_usable:
  assumes uniq: "tokens_unique db" and fk: "token_users_exist db"
    and mem: "token_rec \<in> set (password_reset_tokens db)"
    and tok: "PasswordResetToken_token token_rec = PasswordReset_token p"
    and live: "now \<le> PasswordResetToken_expires_at token_rec"
  shows "reset_password h now p db =
     (Inr (200, ''Password reset successfully''),
      db\<lparr>users :=
           map (\<lambda>u. if User_id u = PasswordResetToken_user_id token_rec
                     then u\<lparr>User_password := h (PasswordReset_new_password p)\<rparr>
                     else u) (users db),
         password_reset_tokens :=
           filter (\<lambda>r. PasswordResetToken_id r \<noteq> PasswordResetToken_id token_rec)
             (password_reset_tokens db)\<rparr>)"
proof -
  from uniq mem have "find (\<lambda>r. PasswordResetToken_token r = PasswordResetToken_token token_rec)
      (password_reset_tokens db) = Some token_rec"
    unfolding tokens_unique_def by (rule find_by_unique_key)
  with tok have f: "find (\<lambda>r. PasswordResetToken_token r = PasswordReset_token p)
      (password_reset_tokens db) = Some token_rec"
    by simp
  from fk mem have "PasswordResetToken_user_id token_rec \<in> set (map User_id (users db))"
    by (simp add: token_users_exist_def list_all_iff)
  then have "find (\<lambda>u. User_id u = PasswordResetToken_user_id token_rec) (users db) \<noteq> None"
    by (auto simp: find_None_iff)
  then obtain user where
    u: "find (\<lambda>u. User_id u = PasswordResetToken_user_id token_rec) (users db) = Some user"
    by auto
  then have "User_id user = PasswordResetToken_user_id token_rec"
    using find_Some_mem by fastforce
  with f u live show ?thesis
    by (simp add: reset_password_def)
qed

lemma token_gone_after_delete:
  assumes uniq: "tokens_unique db" and mem: "token_rec \<in> set (password_reset_tokens db)"
  shows "PasswordResetToken_token token_rec \<notin>
     set (map PasswordResetToken_token
       (filter (\<lambda>r. PasswordResetToken_id r \<noteq> PasswordResetToken_id token_rec)
          (password_reset_tokens db)))"
proof
  assume "PasswordResetToken_token token_rec \<in>
     set (map PasswordResetToken_token
       (filter (\<lambda>r. PasswordResetToken_id r \<noteq> PasswordResetToken_id token_rec)
          (password_reset_tokens db)))"
  then obtain r where r: "r \<in> set (password_reset_tokens db)"
    and ne: "PasswordResetToken_id r \<noteq> PasswordResetToken_id token_rec"
    and same: "PasswordResetToken_token r = PasswordResetToken_token token_rec"
    by auto
  from uniq have "inj_on PasswordResetToken_token (set (password_reset_tokens db))"
    by (simp add: tokens_unique_def distinct_map)
  with r mem same have "r = token_rec" by (auto dest: inj_onD)
  with ne show False by simp
qed

lemma reset_password_absent:
  "tok \<notin> set (map PasswordResetToken_token (password_reset_tokens db)) \<Longrightarrow>
   PasswordReset_token p = tok \<Longrightarrow>
   reset_password h now p db = (Inl (HTTPException 400 ''Invalid or expired token''), db)"
proof -
  assume "tok \<notin> set (map PasswordResetToken_token (password_reset_tokens db))"
    and "PasswordReset_token p = tok"
  then have "find (\<lambda>r. PasswordResetToken_token r = PasswordReset_token p)
      (password_reset_tokens db) = None"
    by (force simp: find_None_iff image_iff)
  then show ?thesis by (simp add: reset_password_def)
qed

text \<open>
  Claim C8. On a store that satisfies the uniqueness of tokens and the foreign key of the
  token table, \<open>reset_password\<close> succeeds exactly when a stored row carries the token
  and has not expired (\<open>now \<le> expires_at\<close>). On success the password of the row's user
  becomes the hash of the new password, the row is deleted and nothing else changes; no
  row carries the token afterwards, so every later call with it fails with 400. In every
  other case the call fails with 400 and the store is unchanged.
\<close>

theorem reset_password_single_use:
  assumes "tokens_unique db" and "token_users_exist db"
  shows "(usable_token (PasswordReset_token p) now db
            \<longleftrightarrow> (\<exists>resp. fst (reset_password h now p db) = Inr resp))
     \<and> (usable_token (PasswordReset_token p) now db \<longrightarrow>
          (\<exists>token_rec \<in> set (password_reset_tokens db).
             PasswordResetToken_token token_rec = PasswordReset_token p
             \<and> reset_password h now p db =
                 (Inr (200, ''Password reset successfully''),
                  db\<lparr>users :=
                       map (\<lambda>u. if User_id u = PasswordResetToken_user_id token_rec
                                 then u\<lparr>User_password := h (PasswordReset_new_password p)\<rparr>
                                 else u) (users db),
                     password_reset_tokens :=
                       filter (\<lambda>r. PasswordResetToken_id r \<noteq> PasswordResetToken_id token_rec)
                         (password_reset_tokens db)\<rparr>))
          \<and> PasswordReset_token p \<notin> set (map PasswordResetToken_token
                (password_reset_tokens (snd (reset_password h now p db))))
          \<and> (\<forall>h' now' new'.
                reset_password h' now'
                  \<lparr>PasswordReset_token = PasswordReset_token p,
                   PasswordReset_new_password = new'\<rparr> (snd (reset_password h now p db))
                = (Inl (HTTPException 400 ''Invalid or expired token''),
                   snd (reset_password h now p db))))
     \<and> (\<not> usable_token (PasswordReset_token p) now db \<longrightarrow>
          reset_password h now p db
            = (Inl (HTTPException 400 ''Invalid or expired token''), db))"
proof -
  have fail: "reset_password h now p db
            = (Inl (HTTPException 400 ''Invalid or expired token''), db)"
    if "\<not> usable_token (PasswordReset_token p) now db"
    using that by (rule reset_password_unusable)
  have ok: "(\<exists>token_rec \<in> set (password_reset_tokens db).
             PasswordResetToken_token token_rec = PasswordReset_token p
             \<and> reset_password h now p db =
                 (Inr (200, ''Password reset successfully''),
                  db\<lparr>users :=
                       map (\<lambda>u. if User_id u = PasswordResetToken_user_id token_rec
                                 then u\<lparr>User_password := h (PasswordReset_new_password p)\<rparr>
                                 else u) (users db),
                     password_reset_tokens :=
                       filter (\<lambda>r. PasswordResetToken_id r \<noteq> PasswordResetToken_id token_rec)
                         (password_reset_tokens db)\<rparr>))
          \<and> PasswordReset_token p \<notin> set (map PasswordResetToken_token
                (password_reset_tokens (snd (reset_password h now p db))))"
    if "usable_token (PasswordReset_token p) now db"
  proof -
    from that obtain token_rec where mem: "token_rec \<in> set (password_reset_tokens db)"
      and tok: "PasswordResetToken_token token_rec = PasswordReset_token p"
      and live: "now \<le> PasswordResetToken_expires_at token_rec"
      by (auto simp: usable_token_def list_ex_iff)
    note run = reset_password_usable [OF assms mem tok live, of h]
    from token_gone_after_delete [OF assms(1) mem] tok
    have "PasswordReset_token p \<notin> set (map PasswordResetToken_token
                (password_reset_tokens (snd (reset_password h now p db))))"
      by (simp add: run)
    with mem tok run show ?thesis by blast
  qed
  have again: "reset_password h' now'
                  \<lparr>PasswordReset_token = PasswordReset_token p,
                   PasswordReset_new_password = new'\<rparr> (snd (reset_password h now p db))
                = (Inl (HTTPException 400 ''Invalid or expired token''),
                   snd (reset_password h now p db))"
    if "usable_token (PasswordReset_token p) now db" for h' now' new'
    using ok [OF that] by (intro reset_password_absent [where tok = "PasswordReset_token p"]) simp_all
  have iff: "usable_token (PasswordReset_token p) now db
            \<longleftrightarrow> (\<exists>resp. fst (reset_password h now p db) = Inr resp)"
  proof
    assume "usable_token (PasswordReset_token p) now db"
    from ok [OF this] show "\<exists>resp. fst (reset_password h now p db) = Inr resp" by auto
  next
    assume r: "\<exists>resp. fst (reset_password h now p db) = Inr resp"
    show "usable_token (PasswordReset_token p) now db"
    proof (rule ccontr)
      assume "\<not> usable_token (PasswordReset_token p) now db"
      from fail [OF this] r show False by simp
    qed
  qed
  from iff ok again fail show ?thesis by blast
qed

theorem reset_password_single_use_witness:
  "tokens_unique reset_store \<and> token_users_exist reset_store
   \<and> usable_token ''tok1'' 4000 reset_store
   \<and> reset_password toy_hash 4000
        \<lparr>PasswordReset_token = ''tok1'', PasswordReset_new_password = ''new''\<rparr> reset_store
      = (Inr (200, ''Password reset successfully''),
         empty_store\<lparr>users := [alice\<lparr>User_password := ''h:new''\<rparr>]\<rparr>)
   \<and> \<not> usable_token ''tok1'' 6000 reset_store
   \<and> reset_password toy_hash 6000
        \<lparr>PasswordReset_token = ''tok1'', PasswordReset_new_password = ''new''\<rparr> reset_store
      = (Inl (HTTPException 400 ''Invalid or expired token''), reset_store)"
proof -
  have u: "tokens_unique reset_store" and f: "token_users_exist reset_store"
    by (simp_all add: tokens_unique_def token_users_exist_def reset_store_def alice_def
        alice_token_def empty_store_def)
  have a: "usable_token ''tok1'' 4000 reset_store"
    and b: "\<not> usable_token ''tok1'' 6000 reset_store"
    by (simp_all add: usable_token_def reset_store_def alice_token_def)
  have run: "reset_password toy_hash 4000
        \<lparr>PasswordReset_token = ''tok1'', PasswordReset_new_password = ''new''\<rparr> reset_store
      = (Inr (200, ''Password reset successfully''),
         empty_store\<lparr>users := [alice\<lparr>User_password := ''h:new''\<rparr>]\<rparr>)"
    by (simp add: reset_password_def reset_store_def alice_token_def alice_def
        empty_store_def toy_hash_def)
  from reset_password_single_use [OF u f, where h = toy_hash and now = 6000
      and p = "\<lparr>PasswordReset_token = ''tok1'', PasswordReset_new_password = ''new''\<rparr>"]
    reset_password_single_use [OF u f, where h = toy_hash and now = 4000
      and p = "\<lparr>PasswordReset_token = ''tok1'', PasswordReset_new_password = ''new''\<rparr>"]
    u f a b run
  show ?thesis by simp
qed

section \<open>Properties of the soft delete\<close>








section \<open>Properties of the tag assignment\<close>

lemma take_short_iff:
  "0 \<le> c \<Longrightarrow> int (length (take (nat c) xs)) < c \<longleftrightarrow> int (length xs) < c"
  by auto









section \<open>Properties of minting\<close>

lemma mint_warehouse_tags_failure:
  assumes "TagGenerationRequest_mint_type req = ''warehouse''"
    and "mint (map uuid4 [0..<nat (TagGenerationRequest_count req)]) = Inl e"
  shows "mint_warehouse_tags uuid4 mint now req cu db
           = (Inl (HTTPException 500 (''Minting failed: '' @ e)), db)"
  using assms
  by (simp add: mint_warehouse_tags_def Let_def close_def rollback_def set_batch_def
      add_batch_def open_session_def)

lemma mint_direct_tags_failure:
  assumes "TagGenerationRequest_mint_type req = ''direct''"
    and "TagGenerationRequest_product_id req = Some pid" and "pid \<noteq> 0"
    and "mint (map uuid4 [0..<nat (TagGenerationRequest_count req)]) pid = Inl e"
  shows "mint_direct_tags uuid4 mint now req cu db
           = (Inl (HTTPException 500 (''Direct minting failed: '' @ e)), db)"
  using assms
  by (simp add: mint_direct_tags_def Let_def close_def rollback_def set_batch_def
      add_batch_def open_session_def)

lemma make_tags_length:
  "length (make_tags i tok tx st p b now codes) = length codes"
  by (simp add: make_tags_def enumerate_eq_zip)

lemma make_tags_batch:
  "t \<in> set (make_tags i tok tx st p b now codes) \<Longrightarrow> Tag_batch_id t = b"
  by (auto simp: make_tags_def enumerate_eq_zip)

lemma fresh_id_above: "x \<in> set ids \<Longrightarrow> x < fresh_id ids"
proof -
  have "\<And>a. a \<le> fold max ids a" "\<And>a. x \<in> set ids \<Longrightarrow> x \<le> fold max ids a"
    for x :: int
  proof (induction ids)
    case Nil
    { case 1 show ?case by simp }
    { case 2 then show ?case by simp }
  next
    case (Cons y ys)
    { case 1
      have "a \<le> max y a" by simp
      also have "\<dots> \<le> fold max ys (max y a)" by (rule Cons.IH(1))
      finally show ?case by simp }
    { case 2
      then show ?case
      proof (cases "x = y")
        case True
        have "y \<le> max y a" by simp
        also have "\<dots> \<le> fold max ys (max y a)" by (rule Cons.IH(1))
        finally show ?thesis using True by simp
      next
        case False
        with 2 have "x \<in> set ys" by simp
        then show ?thesis using Cons.IH(2) by simp
      qed }
  qed
  then show "x \<in> set ids \<Longrightarrow> x < fresh_id ids"
    by (force simp: fresh_id_def)
qed

lemma set_fresh_batch:
  "map (\<lambda>b. if Batch_id b = fresh_id (map Batch_id bs) then f b else b) bs = bs"
proof (rule map_idI)
  fix b assume "b \<in> set bs"
  then have "Batch_id b \<in> set (map Batch_id bs)" by simp
  then have "Batch_id b < fresh_id (map Batch_id bs)" by (rule fresh_id_above)
  then show "(if Batch_id b = fresh_id (map Batch_id bs) then f b else b) = b" by simp
qed

lemma mint_warehouse_tags_success:
  assumes "TagGenerationRequest_mint_type req = ''warehouse''"
    and "mint (map uuid4 [0..<nat (TagGenerationRequest_count req)]) = Inr tx"
  shows "\<exists>batch new_tags.
           mint_warehouse_tags uuid4 mint now req cu db
             = (Inr batch, db\<lparr>batches := batches db @ [batch], tags := tags db @ new_tags\<rparr>)
           \<and> Batch_status batch = ''minted''
           \<and> Batch_id batch = fresh_id (map Batch_id (batches db))
           \<and> length new_tags = nat (TagGenerationRequest_count req)
           \<and> (\<forall>t \<in> set new_tags. Tag_batch_id t = Batch_id batch)"
proof -
  let ?n = "nat (TagGenerationRequest_count req)"
  let ?bid = "fresh_id (map Batch_id (batches db))"
  let ?batch = "\<lparr>Batch_id = ?bid, Batch_product_id = None,
      Batch_manufacturer_id = User_id cu, Batch_count = TagGenerationRequest_count req,
      Batch_status = ''minted'', Batch_mint_type = ''warehouse'',
      Batch_blockchain_tx_hash = Some tx, Batch_created_at = now\<rparr>"
  let ?new = "make_tags (fresh_id (map Tag_id (tags db))) (\<lambda>k. uuid4 (?n + k))
                tx ''unused'' None ?bid now (map uuid4 [0..<?n])"
  have "mint_warehouse_tags uuid4 mint now req cu db
      = (Inr ?batch, db\<lparr>batches := batches db @ [?batch], tags := tags db @ ?new\<rparr>)"
    using assms
    by (simp add: mint_warehouse_tags_def Let_def close_def commit_def set_batch_def
        add_batch_def add_all_tags_def open_session_def set_fresh_batch)
  moreover have "length ?new = ?n" by (simp add: make_tags_length)
  moreover have "\<forall>t \<in> set ?new. Tag_batch_id t = Batch_id ?batch"
    using make_tags_batch by fastforce
  ultimately show ?thesis by (intro exI [of _ ?batch] exI [of _ ?new]) simp
qed

lemma mint_direct_tags_success:
  assumes "TagGenerationRequest_mint_type req = ''direct''"
    and "TagGenerationRequest_product_id req = Some pid" and "pid \<noteq> 0"
    and "mint (map uuid4 [0..<nat (TagGenerationRequest_count req)]) pid = Inr tx"
  shows "\<exists>batch new_tags.
           mint_direct_tags uuid4 mint now req cu db
             = (Inr batch, db\<lparr>batches := batches db @ [batch], tags := tags db @ new_tags\<rparr>)
           \<and> Batch_status batch = ''minted''
           \<and> Batch_id batch = fresh_id (map Batch_id (batches db))
           \<and> length new_tags = nat (TagGenerationRequest_count req)
           \<and> (\<forall>t \<in> set new_tags. Tag_batch_id t = Batch_id batch)"
proof -
  let ?n = "nat (TagGenerationRequest_count req)"
  let ?bid = "fresh_id (map Batch_id (batches db))"
  let ?batch = "\<lparr>Batch_id = ?bid, Batch_product_id = Some pid,
      Batch_manufacturer_id = User_id cu, Batch_count = TagGenerationRequest_count req,
      Batch_status = ''minted'', Batch_mint_type = ''direct'',
      Batch_blockchain_tx_hash = Some tx, Batch_created_at = now\<rparr>"
  let ?new = "make_tags (fresh_id (map Tag_id (tags db))) (\<lambda>k. uuid4 (?n + k))
                tx ''active'' (Some pid) ?bid now (map uuid4 [0..<?n])"
  have "mint_direct_tags uuid4 mint now req cu db
      = (Inr ?batch, db\<lparr>batches := batches db @ [?batch], tags := tags db @ ?new\<rparr>)"
    using assms
    by (simp add: mint_direct_tags_def Let_def close_def commit_def set_batch_def
        add_batch_def add_all_tags_def open_session_def set_fresh_batch)
  moreover have "length ?new = ?n" by (simp add: make_tags_length)
  moreover have "\<forall>t \<in> set ?new. Tag_batch_id t = Batch_id ?batch"
    using make_tags_batch by fastforce
  ultimately show ?thesis by (intro exI [of _ ?batch] exI [of _ ?new]) simp
qed

text \<open>
  Claim C2, at the minting calls whose external call raises. The request fails with
  status 500 and the store is exactly as it was before the request: the rollback removes
  the batch of the request, and the status \<^verbatim>\<open>failed\<close> that the handler writes afterwards
  is never committed. So no batch row of the request is stored, with status \<^verbatim>\<open>failed\<close>
  or any other (and no tag references it).
\<close>

theorem mint_failure_persists_no_batch:
  "(TagGenerationRequest_mint_type req = ''warehouse''
      \<and> mint_w (map uuid4 [0..<nat (TagGenerationRequest_count req)]) = Inl e
    \<longrightarrow> mint_warehouse_tags uuid4 mint_w now req cu db
          = (Inl (HTTPException 500 (''Minting failed: '' @ e)), db))
   \<and> (TagGenerationRequest_mint_type req' = ''direct''
      \<and> TagGenerationRequest_product_id req' = Some pid \<and> pid \<noteq> 0
      \<and> mint_d (map uuid4 [0..<nat (TagGenerationRequest_count req')]) pid = Inl e'
    \<longrightarrow> mint_direct_tags uuid4 mint_d now req' cu db
          = (Inl (HTTPException 500 (''Direct minting failed: '' @ e')), db))"
  using mint_warehouse_tags_failure [of req mint_w uuid4 e now cu db]
    mint_direct_tags_failure [of req' pid mint_d uuid4 e' now cu db]
  by blast

text \<open>
  An administrator asks for two warehouse tags, and for two direct tags of product 1,
  while the blockchain service is unreachable: the stored batches are the one batch that
  was there, and none has the status \<^verbatim>\<open>failed\<close>.
\<close>

theorem mint_failure_persists_no_batch_witness:
  "mint_warehouse_tags toy_uuid4 chain_down 400
       \<lparr>TagGenerationRequest_product_id = None, TagGenerationRequest_count = 2,
        TagGenerationRequest_mint_type = ''warehouse''\<rparr> root tag_store
     = (Inl (HTTPException 500 ''Minting failed: rpc unreachable''), tag_store)
   \<and> mint_direct_tags toy_uuid4 chain_down_direct 400
       \<lparr>TagGenerationRequest_product_id = Some 1, TagGenerationRequest_count = 2,
        TagGenerationRequest_mint_type = ''direct''\<rparr> root tag_store
     = (Inl (HTTPException 500 ''Direct minting failed: rpc unreachable''), tag_store)
   \<and> batches tag_store = [batch1]
   \<and> filter (\<lambda>b. Batch_status b = ''failed'') (batches tag_store) = []"
  using mint_failure_persists_no_batch [where ?uuid4.0 = toy_uuid4 and mint_w = chain_down
      and mint_d = chain_down_direct and now = 400 and cu = root and db = tag_store
      and e = "''rpc unreachable''" and e' = "''rpc unreachable''" and pid = 1
      and req = "\<lparr>TagGenerationRequest_product_id = None, TagGenerationRequest_count = 2,
        TagGenerationRequest_mint_type = ''warehouse''\<rparr>"
      and req' = "\<lparr>TagGenerationRequest_product_id = Some 1, TagGenerationRequest_count = 2,
        TagGenerationRequest_mint_type = ''direct''\<rparr>"]
  by (simp add: chain_down_def chain_down_direct_def)
    (simp add: tag_store_def batch1_def)

section \<open>Properties of verification\<close>

lemma find_absent: "k \<notin> set (map f xs) \<Longrightarrow> find (\<lambda>x. f x = k) xs = None"
  by (induction xs) auto

lemma find_present: "find (\<lambda>x. f x = k) xs = None \<longleftrightarrow> k \<notin> set (map f xs)"
  by (induction xs) auto

lemma verify_verification_result_cases:
  "verify_verification_result db tag =
     (if Tag_status tag = ''active''
      then (if Some (Tag_id tag) \<in> set (map Scan_tag_id (scans db)) then ''duplicate''
            else ''valid'')
      else ''invalid'')"
  using find_present [of Scan_tag_id "Some (Tag_id tag)" "scans db"]
  by (simp add: verify_verification_result_def del: set_map)

lemma verify_verify_tag_found:
  assumes "find (\<lambda>t. Tag_tag_code t = code) (tags db) = Some tag"
  shows "verify_verify_tag rsp now code loc db =
     (case Tag_product db tag of
        None \<Rightarrow> Inl (HTTPException 500 ''Associated product not found.'')
      | Some product \<Rightarrow>
          rsp \<lparr>VerificationResponse_tag_id = Tag_id tag,
               VerificationResponse_tag_code = Tag_tag_code tag,
               VerificationResponse_verification_result = verify_verification_result db tag,
               VerificationResponse_product_name = Product_name product,
               VerificationResponse_product_description = Product_description product,
               VerificationResponse_product_category = Product_category product,
               VerificationResponse_product_image_url = Product_image_url product,
               VerificationResponse_timestamp = now\<rparr>,
      db\<lparr>scans := scans db @
            [\<lparr>Scan_id = fresh_id (map Scan_id (scans db)), Scan_tag_id = Some (Tag_id tag),
              Scan_user_id = None, Scan_location = loc,
              Scan_verification_result = verify_verification_result db tag,
              Scan_timestamp = now\<rparr>]\<rparr>)"
  using assms
  by (simp add: verify_verify_tag_def Let_def Tag_product_def split: option.splits)

lemma tags_verify_tag_found:
  assumes "find (\<lambda>t. Tag_tag_code t = code) (tags db) = Some tag"
  shows "tags_verify_tag rsp' contract owner now code loc db =
     (case Tag_product db tag of
        None \<Rightarrow> Inl (Unhandled ''AttributeError'')
      | Some product \<Rightarrow>
          rsp' \<lparr>TagVerification_tag_id = Tag_id tag,
               TagVerification_tag_code = Tag_tag_code tag,
               TagVerification_verification_result =
                 tags_verification_result contract owner tag,
               TagVerification_product_name = Product_name product,
               TagVerification_product_image_url = Product_image_url product\<rparr>,
      db\<lparr>scans := scans db @
            [\<lparr>Scan_id = fresh_id (map Scan_id (scans db)), Scan_tag_id = Some (Tag_id tag),
              Scan_user_id = None, Scan_location = loc,
              Scan_verification_result = tags_verification_result contract owner tag,
              Scan_timestamp = now\<rparr>]\<rparr>)"
  using assms
  by (simp add: tags_verify_tag_def Let_def Tag_product_def split: option.splits)

lemma verify_verify_tag_missing:
  "code \<notin> set (map Tag_tag_code (tags db)) \<Longrightarrow>
   verify_verify_tag rsp now code loc db = (Inl (HTTPException 404 ''Tag not found''), db)"
  by (simp add: verify_verify_tag_def find_absent del: set_map)

lemma tags_verify_tag_missing:
  "code \<notin> set (map Tag_tag_code (tags db)) \<Longrightarrow>
   tags_verify_tag rsp' contract owner now code loc db
     = (Inl (HTTPException 404 ''Tag not found.''), db)"
  by (simp add: tags_verify_tag_def find_absent del: set_map)

lemma verify_all_duplicates:
  assumes "find (\<lambda>t. Tag_tag_code t = code) (tags db) = Some tag"
    and "Tag_status tag = ''active''"
    and "Some (Tag_id tag) \<in> set (map Scan_tag_id (scans db))"
  shows "\<exists>ss. scans (verify_all rsp code rs db) = scans db @ ss
            \<and> map Scan_verification_result ss = replicate (length rs) ''duplicate''"
  using assms
proof (induction rs arbitrary: db)
  case Nil
  then show ?case by simp
next
  case (Cons r rs)
  obtain now loc where r: "r = (now, loc)" by (cases r)
  let ?scan = "\<lparr>Scan_id = fresh_id (map Scan_id (scans db)), Scan_tag_id = Some (Tag_id tag),
      Scan_user_id = None, Scan_location = loc,
      Scan_verification_result = verify_verification_result db tag, Scan_timestamp = now\<rparr>"
  let ?db = "db\<lparr>scans := scans db @ [?scan]\<rparr>"
  have step: "snd (verify_verify_tag rsp now code loc db) = ?db"
    by (simp add: verify_verify_tag_found [OF Cons.prems(1)])
  have dup: "verify_verification_result db tag = ''duplicate''"
    using Cons.prems(2,3) by (simp add: verify_verification_result_cases del: set_map)
  have "find (\<lambda>t. Tag_tag_code t = code) (tags ?db) = Some tag"
    using Cons.prems(1) by simp
  moreover have "Some (Tag_id tag) \<in> set (map Scan_tag_id (scans ?db))"
    by simp
  ultimately obtain ss where ss: "scans (verify_all rsp code rs ?db) = scans ?db @ ss"
    and res: "map Scan_verification_result ss = replicate (length rs) ''duplicate''"
    using Cons.IH [of ?db] Cons.prems(2) by blast
  have "scans (verify_all rsp code (r # rs) db) = scans db @ (?scan # ss)"
    using ss by (simp add: r step)
  moreover have "map Scan_verification_result (?scan # ss)
      = replicate (length (r # rs)) ''duplicate''"
    using res dup by simp
  ultimately show ?case by blast
qed

lemma verify_all_first_valid:
  assumes found: "find (\<lambda>t. Tag_tag_code t = code) (tags db) = Some tag"
    and active: "Tag_status tag = ''active''"
    and unseen: "Some (Tag_id tag) \<notin> set (map Scan_tag_id (scans db))"
  shows "map Scan_verification_result
           (drop (length (scans db)) (scans (verify_all rsp code ((now, loc) # rs) db)))
         = ''valid'' # replicate (length rs) ''duplicate''"
proof -
  let ?scan = "\<lparr>Scan_id = fresh_id (map Scan_id (scans db)), Scan_tag_id = Some (Tag_id tag),
      Scan_user_id = None, Scan_location = loc,
      Scan_verification_result = verify_verification_result db tag, Scan_timestamp = now\<rparr>"
  let ?db = "db\<lparr>scans := scans db @ [?scan]\<rparr>"
  have step: "snd (verify_verify_tag rsp now code loc db) = ?db"
    by (simp add: verify_verify_tag_found [OF found])
  have valid: "verify_verification_result db tag = ''valid''"
    using active unseen by (simp add: verify_verification_result_cases del: set_map)
  have "find (\<lambda>t. Tag_tag_code t = code) (tags ?db) = Some tag"
    using found by simp
  moreover have "Some (Tag_id tag) \<in> set (map Scan_tag_id (scans ?db))" by simp
  ultimately obtain ss where ss: "scans (verify_all rsp code rs ?db) = scans ?db @ ss"
    and res: "map Scan_verification_result ss = replicate (length rs) ''duplicate''"
    using verify_all_duplicates [of code ?db tag rsp rs] active by blast
  have "scans (verify_all rsp code ((now, loc) # rs) db) = scans db @ (?scan # ss)"
    using ss by (simp add: step)
  then have "drop (length (scans db)) (scans (verify_all rsp code ((now, loc) # rs) db))
      = ?scan # ss" by simp
  with res valid show ?thesis by simp
qed

text \<open>
  Claim C3. The public endpoint, called with the code of a stored tag, records a scan of
  that tag whose result is \<^verbatim>\<open>valid\<close> when the tag is active and no scan of it is stored,
  \<^verbatim>\<open>duplicate\<close> when the tag is active and a scan of it is stored, and \<^verbatim>\<open>invalid\<close> when
  the tag is not active; when the tag has a product, the response is built from the same
  result.
  Hence in a run of public scans of an active tag that starts with no scan of it stored,
  the first scan records \<^verbatim>\<open>valid\<close> and every later one \<^verbatim>\<open>duplicate\<close>.
\<close>

theorem public_verify_valid_then_duplicate:
  assumes "find (\<lambda>t. Tag_tag_code t = code) (tags db) = Some tag"
  shows "(\<exists>scan. snd (verify_verify_tag rsp now code loc db) = db\<lparr>scans := scans db @ [scan]\<rparr>
            \<and> Scan_tag_id scan = Some (Tag_id tag)
            \<and> Scan_verification_result scan =
                (if Tag_status tag = ''active''
                 then (if Some (Tag_id tag) \<in> set (map Scan_tag_id (scans db))
                       then ''duplicate'' else ''valid'')
                 else ''invalid'')
            \<and> (Tag_product db tag \<noteq> None \<longrightarrow>
                  (\<exists>kwargs. fst (verify_verify_tag rsp now code loc db) = rsp kwargs
                     \<and> VerificationResponse_verification_result kwargs
                         = Scan_verification_result scan)))
     \<and> (Tag_status tag = ''active'' \<and> Some (Tag_id tag) \<notin> set (map Scan_tag_id (scans db)) \<longrightarrow>
          map Scan_verification_result
              (drop (length (scans db)) (scans (verify_all rsp code ((now, loc) # rs) db)))
            = ''valid'' # replicate (length rs) ''duplicate'')"
proof (intro conjI impI)
  let ?scan = "\<lparr>Scan_id = fresh_id (map Scan_id (scans db)), Scan_tag_id = Some (Tag_id tag),
      Scan_user_id = None, Scan_location = loc,
      Scan_verification_result = verify_verification_result db tag, Scan_timestamp = now\<rparr>"
  show "\<exists>scan. snd (verify_verify_tag rsp now code loc db) = db\<lparr>scans := scans db @ [scan]\<rparr>
            \<and> Scan_tag_id scan = Some (Tag_id tag)
            \<and> Scan_verification_result scan =
                (if Tag_status tag = ''active''
                 then (if Some (Tag_id tag) \<in> set (map Scan_tag_id (scans db))
                       then ''duplicate'' else ''valid'')
                 else ''invalid'')
            \<and> (Tag_product db tag \<noteq> None \<longrightarrow>
                  (\<exists>kwargs. fst (verify_verify_tag rsp now code loc db) = rsp kwargs
                     \<and> VerificationResponse_verification_result kwargs
                         = Scan_verification_result scan))"
    by (rule exI [of _ ?scan])
      (auto simp: verify_verify_tag_found [OF assms] verify_verification_result_cases
        simp del: set_map split: option.splits)
next
  assume "Tag_status tag = ''active'' \<and> Some (Tag_id tag) \<notin> set (map Scan_tag_id (scans db))"
  then show "map Scan_verification_result
              (drop (length (scans db)) (scans (verify_all rsp code ((now, loc) # rs) db)))
            = ''valid'' # replicate (length rs) ''duplicate''"
    using verify_all_first_valid [OF assms] by blast
qed

theorem public_verify_valid_then_duplicate_witness:
  "find (\<lambda>t. Tag_tag_code t = ''c2'') (tags tag_store) = Some tag2
   \<and> Tag_status tag2 = ''active''
   \<and> Some (Tag_id tag2) \<notin> set (map Scan_tag_id (scans tag_store))
   \<and> map Scan_verification_result
        (drop (length (scans tag_store))
           (scans (verify_all accept ''c2'' [(700, None), (800, Some ''Lagos'')] tag_store)))
       = [''valid'', ''duplicate'']
   \<and> fst (verify_verify_tag accept 700 ''c2'' None tag_store)
       = Inr \<lparr>VerificationResponse_tag_id = 2, VerificationResponse_tag_code = ''c2'',
              VerificationResponse_verification_result = ''valid'',
              VerificationResponse_product_name = ''Widget'',
              VerificationResponse_product_description = None,
              VerificationResponse_product_category = ''tools'',
              VerificationResponse_product_image_url = ''/static/w.png'',
              VerificationResponse_timestamp = 700\<rparr>"
proof -
  have f: "find (\<lambda>t. Tag_tag_code t = ''c2'') (tags tag_store) = Some tag2"
    by (simp add: tag_store_def tag1_def tag2_def)
  have a: "Tag_status tag2 = ''active''" by (simp add: tag2_def)
  have n: "Some (Tag_id tag2) \<notin> set (map Scan_tag_id (scans tag_store))"
    by (simp add: tag_store_def empty_store_def)
  have p: "Tag_product tag_store tag2 = Some widget"
    by (simp add: Tag_product_def tag2_def tag_store_def widget_def)
  have r: "fst (verify_verify_tag accept 700 ''c2'' None tag_store)
       = Inr \<lparr>VerificationResponse_tag_id = 2, VerificationResponse_tag_code = ''c2'',
              VerificationResponse_verification_result = ''valid'',
              VerificationResponse_product_name = ''Widget'',
              VerificationResponse_product_description = None,
              VerificationResponse_product_category = ''tools'',
              VerificationResponse_product_image_url = ''/static/w.png'',
              VerificationResponse_timestamp = 700\<rparr>"
    using a n by (simp add: verify_verify_tag_found [OF f] p verify_verification_result_cases
        del: set_map) (simp add: tag2_def widget_def accept_def)
  from public_verify_valid_then_duplicate [OF f, where rsp = accept and now = 700
      and loc = None and rs = "[(800, Some ''Lagos'')]"] a n
  have s: "map Scan_verification_result
        (drop (length (scans tag_store))
           (scans (verify_all accept ''c2'' [(700, None), (800, Some ''Lagos'')] tag_store)))
       = [''valid'', ''duplicate'']"
    by simp
  show ?thesis by (intro conjI f a n s r)
qed

text \<open>
  Claim C10. When the tag of the code is stored and has no product, each of the two
  verification endpoints leaves the store with exactly one more scan, which records the
  result the endpoint computed, and fails with status 500: the public endpoint raises it
  itself, and in the other one reading the name of the missing product raises an
  exception that nothing catches.
\<close>

theorem verify_tag_without_product:
  assumes "find (\<lambda>t. Tag_tag_code t = code) (tags db) = Some tag"
    and "Tag_product_id tag = None"
  shows "(\<exists>f. fst (verify_verify_tag rsp now code loc db) = Inl f \<and> status_code f = 500)
     \<and> snd (verify_verify_tag rsp now code loc db)
         = db\<lparr>scans := scans db @
              [\<lparr>Scan_id = fresh_id (map Scan_id (scans db)), Scan_tag_id = Some (Tag_id tag),
                Scan_user_id = None, Scan_location = loc,
                Scan_verification_result = verify_verification_result db tag,
                Scan_timestamp = now\<rparr>]\<rparr>
     \<and> (\<exists>f. fst (tags_verify_tag rsp' contract owner now code loc db) = Inl f
            \<and> status_code f = 500)
     \<and> snd (tags_verify_tag rsp' contract owner now code loc db)
         = db\<lparr>scans := scans db @
              [\<lparr>Scan_id = fresh_id (map Scan_id (scans db)), Scan_tag_id = Some (Tag_id tag),
                Scan_user_id = None, Scan_location = loc,
                Scan_verification_result = tags_verification_result contract owner tag,
                Scan_timestamp = now\<rparr>]\<rparr>"
proof -
  from assms(2) have "Tag_product db tag = None" by (simp add: Tag_product_def)
  then show ?thesis
    by (simp add: verify_verify_tag_found [OF assms(1)] tags_verify_tag_found [OF assms(1)])
qed

theorem verify_tag_without_product_witness:
  "find (\<lambda>t. Tag_tag_code t = ''c1'') (tags tag_store) = Some tag1
   \<and> Tag_product_id tag1 = None
   \<and> verify_verify_tag accept 700 ''c1'' None tag_store
       = (Inl (HTTPException 500 ''Associated product not found.''),
          tag_store\<lparr>scans := [\<lparr>Scan_id = 1, Scan_tag_id = Some 1, Scan_user_id = None,
             Scan_location = None, Scan_verification_result = ''invalid'',
             Scan_timestamp = 700\<rparr>]\<rparr>)
   \<and> tags_verify_tag reject None ''0xAD'' 700 ''c1'' None tag_store
       = (Inl (Unhandled ''AttributeError''),
          tag_store\<lparr>scans := [\<lparr>Scan_id = 1, Scan_tag_id = Some 1, Scan_user_id = None,
             Scan_location = None, Scan_verification_result = ''invalid'',
             Scan_timestamp = 700\<rparr>]\<rparr>)
   \<and> status_code (Unhandled ''AttributeError'') = 500"
proof -
  have f: "find (\<lambda>t. Tag_tag_code t = ''c1'') (tags tag_store) = Some tag1"
    by (simp add: tag_store_def tag1_def)
  have p: "Tag_product_id tag1 = None" by (simp add: tag1_def)
  have v: "verify_verification_result tag_store tag1 = ''invalid''"
    by (simp add: verify_verification_result_cases tag1_def)
  have t: "tags_verification_result None ''0xAD'' tag1 = ''invalid''"
    by (simp add: tags_verification_result_def tag1_def)
  have i: "fresh_id (map Scan_id (scans tag_store)) = 1" "Tag_id tag1 = 1"
    "scans tag_store = []"
    by (simp_all add: tag_store_def empty_store_def fresh_id_def tag1_def)
  note w = verify_tag_without_product [OF f p, where rsp = accept and rsp' = reject
      and now = 700 and loc = None and contract = None and owner = "''0xAD''"]
  have a: "verify_verify_tag accept 700 ''c1'' None tag_store
       = (Inl (HTTPException 500 ''Associated product not found.''),
          tag_store\<lparr>scans := [\<lparr>Scan_id = 1, Scan_tag_id = Some 1, Scan_user_id = None,
             Scan_location = None, Scan_verification_result = ''invalid'',
             Scan_timestamp = 700\<rparr>]\<rparr>)"
  proof (rule prod_eqI)
    show "fst (verify_verify_tag accept 700 ''c1'' None tag_store)
      = fst (Inl (HTTPException 500 ''Associated product not found.'') :: failure + VerificationResponse,
          tag_store\<lparr>scans := [\<lparr>Scan_id = 1, Scan_tag_id = Some 1, Scan_user_id = None,
             Scan_location = None, Scan_verification_result = ''invalid'',
             Scan_timestamp = 700\<rparr>]\<rparr>)"
      using p by (simp add: verify_verify_tag_found [OF f] Tag_product_def)
    show "snd (verify_verify_tag accept 700 ''c1'' None tag_store)
      = snd (Inl (HTTPException 500 ''Associated product not found.'') :: failure + VerificationResponse,
          tag_store\<lparr>scans := [\<lparr>Scan_id = 1, Scan_tag_id = Some 1, Scan_user_id = None,
             Scan_location = None, Scan_verification_result = ''invalid'',
             Scan_timestamp = 700\<rparr>]\<rparr>)"
      using w [THEN conjunct2, THEN conjunct1] by (simp add: v i fresh_id_def)
  qed
  have b: "tags_verify_tag reject None ''0xAD'' 700 ''c1'' None tag_store
       = (Inl (Unhandled ''AttributeError''),
          tag_store\<lparr>scans := [\<lparr>Scan_id = 1, Scan_tag_id = Some 1, Scan_user_id = None,
             Scan_location = None, Scan_verification_result = ''invalid'',
             Scan_timestamp = 700\<rparr>]\<rparr>)"
    using p by (simp add: tags_verify_tag_found [OF f] Tag_product_def t i fresh_id_def)
  show ?thesis by (intro conjI f p a b) simp
qed

section \<open>The scan ledger\<close>

lemma scans_register_user: "scans (snd (register_user h now u db)) = scans db"
  by (simp add: register_user_def Let_def split: option.splits)

lemma scans_request_password_reset:
  "scans (snd (request_password_reset tok now email db)) = scans db"
  by (simp add: request_password_reset_def Let_def split: option.splits)

lemma scans_reset_password: "scans (snd (reset_password h now p db)) = scans db"
  by (simp add: reset_password_def split: option.splits)

lemma scans_update_current_user_profile:
  "scans (snd (update_current_user_profile cu email name db)) = scans db"
  by (simp add: update_current_user_profile_def Let_def)

lemma scans_update_user_role: "scans (snd (update_user_role cu uid role db)) = scans db"
  by (simp add: update_user_role_def split: option.splits)

lemma scans_create_product:
  "scans (snd (create_product pr now cu name d c m up db)) = scans db"
  by (simp add: create_product_def Let_def split: sum.splits)

lemma scans_update_product:
  "scans (snd (update_product pr cu pid name d c m up db)) = scans db"
  by (simp add: update_product_def Let_def split: option.splits sum.splits)

lemma scans_delete_product: "scans (snd (delete_product cu pid db)) = scans db"
  by (simp add: delete_product_def split: option.splits)

lemma scans_mint_warehouse_tags:
  "scans (snd (mint_warehouse_tags uuid4 mint now req cu db)) = scans db"
  by (simp add: mint_warehouse_tags_def Let_def close_def commit_def rollback_def
      set_batch_def add_batch_def add_all_tags_def open_session_def split: sum.splits)

lemma scans_mint_direct_tags:
  "scans (snd (mint_direct_tags uuid4 mint now req cu db)) = scans db"
  by (simp add: mint_direct_tags_def Let_def close_def commit_def rollback_def
      set_batch_def add_batch_def add_all_tags_def open_session_def split: sum.splits)

lemma scans_assign_tags_to_product:
  "scans (snd (assign_tags_to_product pid count cu db)) = scans db"
  by (simp add: assign_tags_to_product_def Let_def split: option.splits)

lemma scans_verify_verify_tag:
  "prefix (scans db) (scans (snd (verify_verify_tag rsp now code loc db)))"
  by (simp add: verify_verify_tag_def Let_def split: option.splits)

lemma scans_tags_verify_tag:
  "prefix (scans db) (scans (snd (tags_verify_tag rsp' contract owner now code loc db)))"
  by (simp add: tags_verify_tag_def Let_def split: option.splits)

lemma scans_handle: "prefix (scans db) (scans (handle e req db))"
  by (cases req)
    (simp_all add: scans_register_user scans_request_password_reset scans_reset_password
      scans_update_current_user_profile scans_update_user_role scans_create_product
      scans_update_product scans_delete_product scans_mint_warehouse_tags
      scans_mint_direct_tags scans_assign_tags_to_product scans_verify_verify_tag
      scans_tags_verify_tag)

text \<open>
  Claim C4. Called with the code of a stored tag, each verification endpoint leaves the
  store with exactly one more scan row, of that tag, recording the result the endpoint
  computed (the result that the response is built from when the tag has a product),
  whatever the result is.
  Called with a code that no stored tag has, each fails with 404 and leaves the store
  unchanged. Every request keeps the scan rows that were stored, unchanged and in place,
  as the beginning of the scan table: no route updates or deletes a scan.
\<close>

theorem verification_appends_one_scan:
  "(find (\<lambda>t. Tag_tag_code t = code) (tags db) = Some tag \<longrightarrow>
      (\<exists>scan. snd (verify_verify_tag rsp now code loc db) = db\<lparr>scans := scans db @ [scan]\<rparr>
          \<and> Scan_tag_id scan = Some (Tag_id tag)
          \<and> Scan_verification_result scan = verify_verification_result db tag
          \<and> (Tag_product db tag \<noteq> None \<longrightarrow>
                (\<exists>kwargs. fst (verify_verify_tag rsp now code loc db) = rsp kwargs
                   \<and> VerificationResponse_verification_result kwargs
                       = Scan_verification_result scan)))
      \<and> (\<exists>scan. snd (tags_verify_tag rsp' contract owner now code loc db)
                   = db\<lparr>scans := scans db @ [scan]\<rparr>
          \<and> Scan_tag_id scan = Some (Tag_id tag)
          \<and> Scan_verification_result scan = tags_verification_result contract owner tag
          \<and> (Tag_product db tag \<noteq> None \<longrightarrow>
                (\<exists>kwargs. fst (tags_verify_tag rsp' contract owner now code loc db)
                     = rsp' kwargs
                   \<and> TagVerification_verification_result kwargs
                       = Scan_verification_result scan))))
   \<and> (code \<notin> set (map Tag_tag_code (tags db)) \<longrightarrow>
        verify_verify_tag rsp now code loc db = (Inl (HTTPException 404 ''Tag not found''), db)
        \<and> tags_verify_tag rsp' contract owner now code loc db
            = (Inl (HTTPException 404 ''Tag not found.''), db))
   \<and> prefix (scans db) (scans (handle e req db))"
proof (intro conjI impI)
  assume f: "find (\<lambda>t. Tag_tag_code t = code) (tags db) = Some tag"
  show "\<exists>scan. snd (verify_verify_tag rsp now code loc db) = db\<lparr>scans := scans db @ [scan]\<rparr>
          \<and> Scan_tag_id scan = Some (Tag_id tag)
          \<and> Scan_verification_result scan = verify_verification_result db tag
          \<and> (Tag_product db tag \<noteq> None \<longrightarrow>
                (\<exists>kwargs. fst (verify_verify_tag rsp now code loc db) = rsp kwargs
                   \<and> VerificationResponse_verification_result kwargs
                       = Scan_verification_result scan))"
    by (rule exI [of _ "\<lparr>Scan_id = fresh_id (map Scan_id (scans db)),
          Scan_tag_id = Some (Tag_id tag), Scan_user_id = None, Scan_location = loc,
          Scan_verification_result = verify_verification_result db tag,
          Scan_timestamp = now\<rparr>"])
      (auto simp: verify_verify_tag_found [OF f] split: option.splits)
  show "\<exists>scan. snd (tags_verify_tag rsp' contract owner now code loc db)
                   = db\<lparr>scans := scans db @ [scan]\<rparr>
          \<and> Scan_tag_id scan = Some (Tag_id tag)
          \<and> Scan_verification_result scan = tags_verification_result contract owner tag
          \<and> (Tag_product db tag \<noteq> None \<longrightarrow>
                (\<exists>kwargs. fst (tags_verify_tag rsp' contract owner now code loc db)
                     = rsp' kwargs
                   \<and> TagVerification_verification_result kwargs
                       = Scan_verification_result scan))"
    by (rule exI [of _ "\<lparr>Scan_id = fresh_id (map Scan_id (scans db)),
          Scan_tag_id = Some (Tag_id tag), Scan_user_id = None, Scan_location = loc,
          Scan_verification_result = tags_verification_result contract owner tag,
          Scan_timestamp = now\<rparr>"])
      (auto simp: tags_verify_tag_found [OF f] split: option.splits)
next
  assume "code \<notin> set (map Tag_tag_code (tags db))"
  then show "verify_verify_tag rsp now code loc db = (Inl (HTTPException 404 ''Tag not found''), db)"
    and "tags_verify_tag rsp' contract owner now code loc db
            = (Inl (HTTPException 404 ''Tag not found.''), db)"
    by (rule verify_verify_tag_missing, rule tags_verify_tag_missing)
next
  show "prefix (scans db) (scans (handle e req db))" by (rule scans_handle)
qed

theorem verification_appends_one_scan_witness:
  "find (\<lambda>t. Tag_tag_code t = ''c2'') (tags tag_store) = Some tag2
   \<and> map Scan_verification_result (scans (snd (verify_verify_tag accept 700 ''c2'' None tag_store)))
       = [''valid'']
   \<and> map Scan_verification_result
        (scans (snd (tags_verify_tag reject None ''0xAD'' 700 ''c2'' None tag_store))) = [''valid'']
   \<and> ''zz'' \<notin> set (map Tag_tag_code (tags tag_store))
   \<and> verify_verify_tag accept 700 ''zz'' None tag_store
       = (Inl (HTTPException 404 ''Tag not found''), tag_store)
   \<and> tags_verify_tag reject None ''0xAD'' 700 ''zz'' None tag_store
       = (Inl (HTTPException 404 ''Tag not found.''), tag_store)
   \<and> prefix (scans (tag_store\<lparr>scans := [scan1]\<rparr>))
        (scans (handle toy_env (Verify ''c2'' None) (tag_store\<lparr>scans := [scan1]\<rparr>)))"
proof -
  have f: "find (\<lambda>t. Tag_tag_code t = ''c2'') (tags tag_store) = Some tag2"
    by (simp add: tag_store_def tag1_def tag2_def)
  have z: "''zz'' \<notin> set (map Tag_tag_code (tags tag_store))"
    by (simp add: tag_store_def tag1_def tag2_def tag3_def)
  have e: "scans tag_store = []" by (simp add: tag_store_def empty_store_def)
  have v: "verify_verification_result tag_store tag2 = ''valid''"
    by (simp add: verify_verification_result_cases e tag2_def)
  have t: "tags_verification_result None ''0xAD'' tag2 = ''valid''"
    by (simp add: tags_verification_result_def tag2_def)
  note c4 = verification_appends_one_scan [where db = tag_store and now = 700
      and rsp = accept and rsp' = reject
      and loc = None and contract = None and owner = "''0xAD''"]
  note found = c4 [where code = "''c2''" and tag = tag2, THEN conjunct1, rule_format, OF f]
  from found obtain scan where
    "snd (verify_verify_tag accept 700 ''c2'' None tag_store)
       = tag_store\<lparr>scans := scans tag_store @ [scan]\<rparr>"
    and "Scan_verification_result scan = verify_verification_result tag_store tag2"
    by blast
  then have a: "map Scan_verification_result
      (scans (snd (verify_verify_tag accept 700 ''c2'' None tag_store))) = [''valid'']"
    by (simp add: e v)
  from found obtain scan' where
    "snd (tags_verify_tag reject None ''0xAD'' 700 ''c2'' None tag_store)
       = tag_store\<lparr>scans := scans tag_store @ [scan']\<rparr>"
    and "Scan_verification_result scan' = tags_verification_result None ''0xAD'' tag2"
    by blast
  then have b: "map Scan_verification_result
      (scans (snd (tags_verify_tag reject None ''0xAD'' 700 ''c2'' None tag_store))) = [''valid'']"
    by (simp add: e t)
  note missing = c4 [where code = "''zz''", THEN conjunct2, THEN conjunct1, rule_format, OF z]
  note keep = verification_appends_one_scan [where db = "tag_store\<lparr>scans := [scan1]\<rparr>"
      and e = toy_env and req = "Verify ''c2'' None", THEN conjunct2, THEN conjunct2]
  show ?thesis
    by (intro conjI f a b z missing [THEN conjunct1] missing [THEN conjunct2] keep)
qed

end
